theory Spec2Isabelle
  imports Main
begin

section \<open>The WebSocket connection security gateway\<close>

text \<open>
  A shallow embedding of \<^verbatim>\<open>src/lib/security\<close>: the rate limiter
  (\<^verbatim>\<open>websocket-rate-limiter.ts\<close>), the token authenticator
  (\<^verbatim>\<open>websocket-auth.ts\<close>) and the security middleware
  (\<^verbatim>\<open>websocket-security.ts\<close>) with its types and defaults.

  Conventions of the embedding.
  \<^item> A JavaScript \<^verbatim>\<open>number\<close> that holds a count, a quota, a status code or a
    millisecond timestamp is an \<^typ>\<open>int\<close>.
  \<^item> \<^verbatim>\<open>Date.now()\<close> is a parameter \<open>now\<close> of every public operation; the several
    readings one call makes are taken to be equal.
  \<^item> An object used as a dictionary and a \<^verbatim>\<open>Map\<close> are maps \<open>string \<rightharpoonup> 'v\<close>; keys
    are taken not to name a member of \<^verbatim>\<open>Object.prototype\<close>.
  \<^item> Strings are lists of ASCII characters.
  \<^item> A mutating method returns the updated object; an \<^verbatim>\<open>async\<close> method is its
    sequential body.
\<close>

subsection \<open>Strings\<close>

definition startsWith :: "string \<Rightarrow> string \<Rightarrow> bool" where
  "startsWith s p = (take (length p) s = p)"

definition endsWith :: "string \<Rightarrow> string \<Rightarrow> bool" where
  "endsWith s t = (length t \<le> length s \<and> drop (length s - length t) s = t)"

text \<open>\<^verbatim>\<open>Math.ceil(a / 1000)\<close> on integers.\<close>

definition ceilDiv1000 :: "int \<Rightarrow> int" where
  "ceilDiv1000 a = - ((- a) div 1000)"

subsection \<open>Rate limiter: types and defaults\<close>

record RateLimitConfig =
  windowMs :: int
  maxRequests :: int

record ConnectionRateLimitConfig =
  maxConnectionsPerUser :: int
  maxConnectionsPerIp :: int
  connWindowMs :: int

record RateLimitState =
  count :: int
  resetTime :: int

record RateLimitResult =
  allowed :: bool
  remaining :: int
  resultResetTime :: int
  retryAfter :: "int option"

definition DEFAULT_MESSAGE_RATE_LIMITS :: "string \<rightharpoonup> RateLimitConfig" where
  "DEFAULT_MESSAGE_RATE_LIMITS =
     [''AGENT_STATUS_UPDATE'' \<mapsto> \<lparr>windowMs = 60000, maxRequests = 100\<rparr>,
      ''CHAT_MESSAGE'' \<mapsto> \<lparr>windowMs = 60000, maxRequests = 50\<rparr>,
      ''METRICS_REQUEST'' \<mapsto> \<lparr>windowMs = 60000, maxRequests = 200\<rparr>]"

definition DEFAULT_CONNECTION_RATE_LIMIT :: ConnectionRateLimitConfig where
  "DEFAULT_CONNECTION_RATE_LIMIT =
     \<lparr>maxConnectionsPerUser = 5, maxConnectionsPerIp = 10, connWindowMs = 60000\<rparr>"

definition DEFAULT_RATE_LIMIT :: RateLimitConfig where
  "DEFAULT_RATE_LIMIT = \<lparr>windowMs = 60000, maxRequests = 100\<rparr>"

subsection \<open>The external key/value store\<close>

text \<open>
  \<^verbatim>\<open>RedisClient\<close> is an interface; the limiter uses its \<^verbatim>\<open>get\<close>,
  \<^verbatim>\<open>set\<close> with a \<^verbatim>\<open>px\<close> time-to-live and \<^verbatim>\<open>del\<close>. The store is a map
  from keys to entries with an expiry instant; an entry whose time-to-live has run out
  is no longer returned. The limiter only ever writes \<^verbatim>\<open>JSON.stringify\<close> of a
  \<^verbatim>\<open>RateLimitState\<close> and reads it back with \<^verbatim>\<open>JSON.parse\<close>, so an entry
  holds the state itself.
\<close>

record RedisEntry =
  entryState :: RateLimitState
  expiresAt :: int

type_synonym RedisClient = "string \<rightharpoonup> RedisEntry"

definition redisGet :: "RedisClient \<Rightarrow> string \<Rightarrow> int \<Rightarrow> RateLimitState option" where
  "redisGet r key now =
     (case r key of
        None \<Rightarrow> None
      | Some e \<Rightarrow> if expiresAt e \<le> now then None else Some (entryState e))"

definition redisSet :: "RedisClient \<Rightarrow> string \<Rightarrow> RateLimitState \<Rightarrow> int \<Rightarrow> int \<Rightarrow> RedisClient" where
  "redisSet r key st px now = r(key \<mapsto> \<lparr>entryState = st, expiresAt = now + px\<rparr>)"

definition redisDel :: "RedisClient \<Rightarrow> string \<Rightarrow> RedisClient" where
  "redisDel r key = r(key := None)"

subsection \<open>Rate limiter\<close>

record WebSocketRateLimiter =
  redis :: "RedisClient option"
  memoryStorage :: "string \<rightharpoonup> RateLimitState"
  connectionConfig :: ConnectionRateLimitConfig
  messageLimits :: "string \<rightharpoonup> RateLimitConfig"
  defaultLimit :: RateLimitConfig

text \<open>
  The constructor merges each argument over its default, field by field
  (\<^verbatim>\<open>{ ...DEFAULT, ...argument }\<close>); an absent field keeps the default.
\<close>

record PartialConnectionRateLimitConfig =
  optMaxConnectionsPerUser :: "int option"
  optMaxConnectionsPerIp :: "int option"
  optConnWindowMs :: "int option"

record PartialRateLimitConfig =
  optWindowMs :: "int option"
  optMaxRequests :: "int option"

definition mergeConnectionConfig ::
  "ConnectionRateLimitConfig \<Rightarrow> PartialConnectionRateLimitConfig \<Rightarrow> ConnectionRateLimitConfig" where
  "mergeConnectionConfig d p =
     \<lparr>maxConnectionsPerUser =
        (case optMaxConnectionsPerUser p of None \<Rightarrow> maxConnectionsPerUser d | Some v \<Rightarrow> v),
      maxConnectionsPerIp =
        (case optMaxConnectionsPerIp p of None \<Rightarrow> maxConnectionsPerIp d | Some v \<Rightarrow> v),
      connWindowMs = (case optConnWindowMs p of None \<Rightarrow> connWindowMs d | Some v \<Rightarrow> v)\<rparr>"

definition mergeRateLimitConfig :: "RateLimitConfig \<Rightarrow> PartialRateLimitConfig \<Rightarrow> RateLimitConfig" where
  "mergeRateLimitConfig d p =
     \<lparr>windowMs = (case optWindowMs p of None \<Rightarrow> windowMs d | Some v \<Rightarrow> v),
      maxRequests = (case optMaxRequests p of None \<Rightarrow> maxRequests d | Some v \<Rightarrow> v)\<rparr>"

definition createWebSocketRateLimiter ::
  "PartialConnectionRateLimitConfig \<Rightarrow> (string \<rightharpoonup> RateLimitConfig) \<Rightarrow> PartialRateLimitConfig \<Rightarrow>
   RedisClient option \<Rightarrow> WebSocketRateLimiter" where
  "createWebSocketRateLimiter cc ml dl rd =
     \<lparr>redis = rd,
      memoryStorage = Map.empty,
      connectionConfig = mergeConnectionConfig DEFAULT_CONNECTION_RATE_LIMIT cc,
      messageLimits = DEFAULT_MESSAGE_RATE_LIMITS ++ ml,
      defaultLimit = mergeRateLimitConfig DEFAULT_RATE_LIMIT dl\<rparr>"

definition getConnectionKeyUser :: "string \<Rightarrow> string" where
  "getConnectionKeyUser identifier = ''ws:conn:user:'' @ identifier"

definition getConnectionKeyIp :: "string \<Rightarrow> string" where
  "getConnectionKeyIp identifier = ''ws:conn:ip:'' @ identifier"

definition getMessageKey :: "string \<Rightarrow> string \<Rightarrow> string" where
  "getMessageKey connectionId messageType = ''ws:msg:'' @ connectionId @ '':'' @ messageType"

definition checkRedisRateLimit ::
  "RedisClient \<Rightarrow> string \<Rightarrow> int \<Rightarrow> int \<Rightarrow> int \<Rightarrow> int \<Rightarrow> RateLimitResult" where
  "checkRedisRateLimit r key maxReq wMs now resetT =
     (case redisGet r key now of
        None \<Rightarrow> \<lparr>allowed = True, remaining = maxReq, resultResetTime = resetT, retryAfter = None\<rparr>
      | Some st \<Rightarrow>
          if now > resetTime st then
            \<lparr>allowed = True, remaining = maxReq, resultResetTime = resetT, retryAfter = None\<rparr>
          else if count st \<ge> maxReq then
            \<lparr>allowed = False, remaining = 0, resultResetTime = resetTime st, retryAfter = None\<rparr>
          else
            \<lparr>allowed = True, remaining = maxReq - count st, resultResetTime = resetTime st,
             retryAfter = None\<rparr>)"

definition checkMemoryRateLimit ::
  "(string \<rightharpoonup> RateLimitState) \<Rightarrow> string \<Rightarrow> int \<Rightarrow> int \<Rightarrow> int \<Rightarrow> int \<Rightarrow> RateLimitResult" where
  "checkMemoryRateLimit storage key maxReq wMs now resetT =
     (case storage key of
        None \<Rightarrow> \<lparr>allowed = True, remaining = maxReq, resultResetTime = resetT, retryAfter = None\<rparr>
      | Some st \<Rightarrow>
          if now > resetTime st then
            \<lparr>allowed = True, remaining = maxReq, resultResetTime = resetT, retryAfter = None\<rparr>
          else if count st \<ge> maxReq then
            \<lparr>allowed = False, remaining = 0, resultResetTime = resetTime st, retryAfter = None\<rparr>
          else
            \<lparr>allowed = True, remaining = maxReq - count st, resultResetTime = resetTime st,
             retryAfter = None\<rparr>)"

definition checkRateLimit ::
  "WebSocketRateLimiter \<Rightarrow> string \<Rightarrow> int \<Rightarrow> int \<Rightarrow> int \<Rightarrow> RateLimitResult" where
  "checkRateLimit lim key maxReq wMs now =
     (let resetT = now + wMs in
      case redis lim of
        Some r \<Rightarrow> checkRedisRateLimit r key maxReq wMs now resetT
      | None \<Rightarrow> checkMemoryRateLimit (memoryStorage lim) key maxReq wMs now resetT)"

definition incrementRedisCounter ::
  "RedisClient \<Rightarrow> string \<Rightarrow> int \<Rightarrow> int \<Rightarrow> int \<Rightarrow> RedisClient" where
  "incrementRedisCounter r key wMs resetT now =
     (case redisGet r key now of
        None \<Rightarrow> redisSet r key \<lparr>count = 1, resetTime = resetT\<rparr> wMs now
      | Some st \<Rightarrow> redisSet r key (st\<lparr>count := count st + 1\<rparr>) wMs now)"

definition incrementMemoryCounter ::
  "(string \<rightharpoonup> RateLimitState) \<Rightarrow> string \<Rightarrow> int \<Rightarrow> int \<Rightarrow> (string \<rightharpoonup> RateLimitState)" where
  "incrementMemoryCounter storage key resetT now =
     (case storage key of
        None \<Rightarrow> storage(key \<mapsto> \<lparr>count = 1, resetTime = resetT\<rparr>)
      | Some st \<Rightarrow>
          if now > resetTime st then storage(key \<mapsto> \<lparr>count = 1, resetTime = resetT\<rparr>)
          else storage(key \<mapsto> st\<lparr>count := count st + 1\<rparr>))"

definition incrementCounter :: "WebSocketRateLimiter \<Rightarrow> string \<Rightarrow> int \<Rightarrow> int \<Rightarrow> WebSocketRateLimiter" where
  "incrementCounter lim key wMs now =
     (let resetT = now + wMs in
      case redis lim of
        Some r \<Rightarrow> lim\<lparr>redis := Some (incrementRedisCounter r key wMs resetT now)\<rparr>
      | None \<Rightarrow> lim\<lparr>memoryStorage := incrementMemoryCounter (memoryStorage lim) key resetT now\<rparr>)"

definition checkConnectionRateLimit ::
  "WebSocketRateLimiter \<Rightarrow> string \<Rightarrow> string \<Rightarrow> int \<Rightarrow> RateLimitResult \<times> WebSocketRateLimiter" where
  "checkConnectionRateLimit lim userId ip now =
     (let userKey = getConnectionKeyUser userId;
          ipKey = getConnectionKeyIp ip;
          cfg = connectionConfig lim;
          userResult = checkRateLimit lim userKey (maxConnectionsPerUser cfg) (connWindowMs cfg) now
      in
      if \<not> allowed userResult then
        (userResult\<lparr>retryAfter := Some (ceilDiv1000 (resultResetTime userResult - now))\<rparr>, lim)
      else
        let ipResult = checkRateLimit lim ipKey (maxConnectionsPerIp cfg) (connWindowMs cfg) now in
        if \<not> allowed ipResult then
          (ipResult\<lparr>retryAfter := Some (ceilDiv1000 (resultResetTime ipResult - now))\<rparr>, lim)
        else
          let lim1 = incrementCounter lim userKey (connWindowMs cfg) now;
              lim2 = incrementCounter lim1 ipKey (connWindowMs cfg) now
          in
          (\<lparr>allowed = True,
            remaining = min (remaining userResult) (remaining ipResult) - 1,
            resultResetTime = max (resultResetTime userResult) (resultResetTime ipResult),
            retryAfter = None\<rparr>, lim2))"

definition limitConfigFor :: "WebSocketRateLimiter \<Rightarrow> string \<Rightarrow> RateLimitConfig" where
  "limitConfigFor lim messageType =
     (case messageLimits lim messageType of Some c \<Rightarrow> c | None \<Rightarrow> defaultLimit lim)"

definition checkMessageRateLimit ::
  "WebSocketRateLimiter \<Rightarrow> string \<Rightarrow> string \<Rightarrow> int \<Rightarrow> RateLimitResult \<times> WebSocketRateLimiter" where
  "checkMessageRateLimit lim connectionId messageType now =
     (let key = getMessageKey connectionId messageType;
          limitConfig = limitConfigFor lim messageType;
          result = checkRateLimit lim key (maxRequests limitConfig) (windowMs limitConfig) now
      in
      if \<not> allowed result then
        (result\<lparr>retryAfter := Some (ceilDiv1000 (resultResetTime result - now))\<rparr>, lim)
      else
        (\<lparr>allowed = True, remaining = remaining result - 1,
          resultResetTime = resultResetTime result, retryAfter = None\<rparr>,
         incrementCounter lim key (windowMs limitConfig) now))"

definition decrementStored :: "(string \<rightharpoonup> RateLimitState) \<Rightarrow> string \<Rightarrow> (string \<rightharpoonup> RateLimitState)" where
  "decrementStored storage key =
     (case storage key of
        Some st \<Rightarrow> if count st > 0 then storage(key \<mapsto> st\<lparr>count := count st - 1\<rparr>) else storage
      | None \<Rightarrow> storage)"

definition decrementConnectionCounter ::
  "WebSocketRateLimiter \<Rightarrow> string \<Rightarrow> string \<Rightarrow> WebSocketRateLimiter" where
  "decrementConnectionCounter lim userId ip =
     (let userKey = getConnectionKeyUser userId;
          ipKey = getConnectionKeyIp ip
      in
      case redis lim of
        Some r \<Rightarrow> lim
      | None \<Rightarrow>
          lim\<lparr>memoryStorage := decrementStored (decrementStored (memoryStorage lim) userKey) ipKey\<rparr>)"

definition cleanupMemoryStorage :: "WebSocketRateLimiter \<Rightarrow> int \<Rightarrow> WebSocketRateLimiter" where
  "cleanupMemoryStorage lim now =
     lim\<lparr>memoryStorage :=
       (\<lambda>key. case memoryStorage lim key of
                 None \<Rightarrow> None
               | Some st \<Rightarrow> if resetTime st \<le> now then None else Some st)\<rparr>"

definition resetRateLimit :: "WebSocketRateLimiter \<Rightarrow> string \<Rightarrow> WebSocketRateLimiter" where
  "resetRateLimit lim key =
     (case redis lim of
        Some r \<Rightarrow> lim\<lparr>redis := Some (redisDel r key)\<rparr>
      | None \<Rightarrow> lim\<lparr>memoryStorage := (memoryStorage lim)(key := None)\<rparr>)"

definition getRateLimitStatus :: "WebSocketRateLimiter \<Rightarrow> string \<Rightarrow> int \<Rightarrow> RateLimitState option" where
  "getRateLimitStatus lim key now =
     (case redis lim of
        Some r \<Rightarrow> redisGet r key now
      | None \<Rightarrow>
          (case memoryStorage lim key of
             Some st \<Rightarrow> if now \<le> resetTime st then Some st else None
           | None \<Rightarrow> None))"

definition destroyRateLimiter :: "WebSocketRateLimiter \<Rightarrow> WebSocketRateLimiter" where
  "destroyRateLimiter lim = lim\<lparr>memoryStorage := Map.empty\<rparr>"


subsection \<open>Upgrade requests\<close>

datatype HeaderValue = Single string | Multiple "string list"

record WebSocketUpgradeRequest =
  headers :: "string \<rightharpoonup> HeaderValue"
  remoteAddress :: "string option"
  url :: "string option"

subsection \<open>Token authenticator\<close>

record AuthenticatedUser =
  userId :: string
  email :: string
  roles :: "string list"
  permissions :: "string list"
  sessionId :: string

record AuthenticationResult =
  success :: bool
  user :: "AuthenticatedUser option"
  authError :: "string option"
  authCode :: "int option"

record ParsedToken =
  token :: string
  tokenUserId :: "string option"

record WebSocketAuthHandler =
  secret :: string
  algorithm :: string

text \<open>
  The claims of a verified token that the handler reads; a field is \<open>None\<close> when the
  payload has no such key.
\<close>

record JWTPayload =
  sub :: "string option"
  payloadEmail :: "string option"
  payloadRoles :: "string list option"
  payloadPermissions :: "string list option"
  sid :: "string option"

text \<open>What \<^verbatim>\<open>jwtVerify\<close> throws: an \<^verbatim>\<open>Error\<close> with a name and a message, or
  a value that is no \<^verbatim>\<open>Error\<close>.\<close>

datatype JoseError = ErrorNamed string string | NonError

text \<open>
  The two library calls of \<^verbatim>\<open>websocket-auth.ts\<close> are parameters of the model.
  \<^item> \<open>parseURL s\<close> is \<^verbatim>\<open>new URL(s)\<close>: \<open>None\<close> when the constructor throws, else
    the \<^verbatim>\<open>searchParams.get\<close> of the parsed URL.
  \<^item> \<open>jwtVerify token secret algorithm\<close> is jose's \<^verbatim>\<open>jwtVerify\<close>. It acts on a
    world \<open>'w\<close> of its own, so that a call of the verifier is observable.
\<close>

record 'w External =
  parseURL :: "string \<Rightarrow> (string \<Rightarrow> string option) option"
  jwtVerify :: "string \<Rightarrow> string \<Rightarrow> string \<Rightarrow> 'w \<Rightarrow> (JoseError + JWTPayload) \<times> 'w"

datatype Error = Error string

definition AUTHENTICATION_ERROR :: string where
  "AUTHENTICATION_ERROR = ''Authentication failed''"

definition newWebSocketAuthHandler :: "string \<Rightarrow> string option \<Rightarrow> WebSocketAuthHandler" where
  "newWebSocketAuthHandler s alg =
     \<lparr>secret = s, algorithm = (case alg of None \<Rightarrow> ''HS256'' | Some a \<Rightarrow> a)\<rparr>"

definition createWebSocketAuthHandler :: "string \<Rightarrow> string option \<Rightarrow> Error + WebSocketAuthHandler" where
  "createWebSocketAuthHandler s alg =
     (if s = [] \<or> length s < 32 then Inl (Error ''JWT secret must be at least 32 characters long'')
      else Inr (newWebSocketAuthHandler s alg))"

text \<open>The string handed to \<^verbatim>\<open>new URL\<close>: a relative path is put under
  \<^verbatim>\<open>ws://localhost\<close>.\<close>

definition urlStringOf :: "string \<Rightarrow> string" where
  "urlStringOf u =
     (if startsWith u ''ws://'' \<or> startsWith u ''wss://'' then u else ''ws://localhost'' @ u)"

definition extractTokenFromUrl :: "'w External \<Rightarrow> WebSocketUpgradeRequest \<Rightarrow> ParsedToken option" where
  "extractTokenFromUrl ext request =
     (case url request of
        None \<Rightarrow> None
      | Some u \<Rightarrow>
          if u = [] then None
          else
            case parseURL ext (urlStringOf u) of
              None \<Rightarrow> None
            | Some searchParams \<Rightarrow>
                (case searchParams ''token'' of
                   None \<Rightarrow> None
                 | Some t \<Rightarrow> if t = [] then None else Some \<lparr>token = t, tokenUserId = None\<rparr>))"

definition extractUserFromPayload :: "JWTPayload \<Rightarrow> string \<Rightarrow> AuthenticatedUser option" where
  "extractUserFromPayload payload uuid =
     (case sub payload of
        None \<Rightarrow> None
      | Some s \<Rightarrow>
          (case payloadEmail payload of
             None \<Rightarrow> None
           | Some e \<Rightarrow>
               Some \<lparr>userId = s,
                     email = e,
                     roles = (case payloadRoles payload of None \<Rightarrow> [] | Some r \<Rightarrow> r),
                     permissions = (case payloadPermissions payload of None \<Rightarrow> [] | Some q \<Rightarrow> q),
                     sessionId = (case sid payload of
                                    None \<Rightarrow> uuid
                                  | Some x \<Rightarrow> if x = [] then uuid else x)\<rparr>))"

definition authFailure :: "string \<Rightarrow> int \<Rightarrow> AuthenticationResult" where
  "authFailure msg c = \<lparr>success = False, user = None, authError = Some msg, authCode = Some c\<rparr>"

definition verifyToken ::
  "'w External \<Rightarrow> WebSocketAuthHandler \<Rightarrow> string \<Rightarrow> string \<Rightarrow> 'w \<Rightarrow> AuthenticationResult \<times> 'w" where
  "verifyToken ext h tok uuid w =
     (case jwtVerify ext tok (secret h) (algorithm h) w of
        (Inr payload, w') \<Rightarrow>
          (case extractUserFromPayload payload uuid of
             None \<Rightarrow> (authFailure ''Invalid token payload: missing required fields'' 401, w')
           | Some u \<Rightarrow>
               (\<lparr>success = True, user = Some u, authError = None, authCode = None\<rparr>, w'))
      | (Inl (ErrorNamed name msg), w') \<Rightarrow>
          if name = ''JWTExpired'' then (authFailure ''Token has expired'' 401, w')
          else if name = ''JWTInvalid'' then (authFailure ''Invalid token signature'' 401, w')
          else (authFailure (''Token verification failed: '' @ msg) 401, w')
      | (Inl NonError, w') \<Rightarrow> (authFailure AUTHENTICATION_ERROR 401, w'))"

definition authenticate ::
  "'w External \<Rightarrow> WebSocketAuthHandler \<Rightarrow> WebSocketUpgradeRequest \<Rightarrow> string \<Rightarrow> 'w \<Rightarrow>
   AuthenticationResult \<times> 'w" where
  "authenticate ext h request uuid w =
     (case extractTokenFromUrl ext request of
        None \<Rightarrow> (authFailure ''Missing authentication token'' 401, w)
      | Some parsedToken \<Rightarrow> verifyToken ext h (token parsedToken) uuid w)"


subsection \<open>Security middleware: types\<close>

record WebSocketSecurityConfig =
  allowedOrigins :: "string list"
  jwtSecret :: string
  jwtAlgorithm :: string
  connectionRateLimit :: ConnectionRateLimitConfig
  messageRateLimits :: "string \<rightharpoonup> RateLimitConfig"
  defaultRateLimit :: RateLimitConfig
  enableLogging :: bool

record PartialSecurityConfig =
  optAllowedOrigins :: "string list option"
  givenJwtSecret :: string
  optJwtAlgorithm :: "string option"
  optConnectionRateLimit :: "PartialConnectionRateLimitConfig option"
  optMessageRateLimits :: "(string \<rightharpoonup> RateLimitConfig) option"
  optDefaultRateLimit :: "PartialRateLimitConfig option"
  optEnableLogging :: "bool option"

record WebSocketConnectionContext =
  ctxUser :: "AuthenticatedUser option"
  ctxIp :: string
  ctxOrigin :: string
  userAgent :: string
  connectionTime :: int
  lastActivity :: int
  messageCount :: int
  connectionId :: string

datatype SecurityEventType =
    ORIGIN_VALIDATION_FAILED
  | ORIGIN_VALIDATION_PASSED
  | AUTHENTICATION_FAILED
  | AUTHENTICATION_SUCCESS
  | CONNECTION_RATE_LIMIT_EXCEEDED
  | MESSAGE_RATE_LIMIT_EXCEEDED
  | CONNECTION_ACCEPTED
  | CONNECTION_REJECTED
  | CONNECTION_CLOSED
  | SUSPICIOUS_ACTIVITY

datatype Detail = DString string | DNumber int | DStrings "string list" | DUndefined

record SecurityAuditLog =
  timestamp :: int
  event :: SecurityEventType
  logConnectionId :: string
  logIp :: string
  logOrigin :: "string option"
  logUserId :: "string option"
  details :: "(string \<times> Detail) list"
  blocked :: bool

text \<open>What the \<^verbatim>\<open>SecurityLogger\<close> has been handed, the latest entry last.\<close>

datatype LogEntry =
    LogEvent SecurityAuditLog
  | LogWarn string "(string \<times> Detail) list"
  | LogError string "(string \<times> Detail) list"

record ValidationResult =
  valid :: bool
  validationError :: "string option"
  validationCode :: "int option"

record SecurityCheckResult =
  checkAllowed :: bool
  checkResult :: "AuthenticationResult option"
  checkError :: "string option"
  checkCode :: "int option"

record WebSocketSecurityMiddleware =
  config :: WebSocketSecurityConfig
  authHandler :: WebSocketAuthHandler
  rateLimiter :: WebSocketRateLimiter
  logger :: "LogEntry list"
  connectionContexts :: "string \<rightharpoonup> WebSocketConnectionContext"

text \<open>
  The readings of one call that the code does not determine: the clock, the digits
  \<^verbatim>\<open>Math.random().toString(36).substring(2, 11)\<close> at each site that generates a
  connection id (0: \<open>validateOrigin\<close>, 1: \<open>authenticate\<close>, 2: \<open>checkConnectionRateLimit\<close>,
  3: \<open>performSecurityCheck\<close>) and \<^verbatim>\<open>crypto.randomUUID()\<close>.
\<close>

record Env =
  dateNow :: int
  mathRandom :: "nat \<Rightarrow> string"
  randomUUID :: string

definition ALLOWED_ORIGINS :: "string list" where
  "ALLOWED_ORIGINS =
     [''https://app.antigravity.dev'', ''https://staging.antigravity.dev'', ''http://localhost:3000'']"

definition CSWSH_PROTECTION_ERROR :: string where
  "CSWSH_PROTECTION_ERROR = ''Cross-Site WebSocket Hijacking attempt detected''"

definition UNAUTHORIZED_ORIGIN_ERROR :: string where
  "UNAUTHORIZED_ORIGIN_ERROR = ''Origin not allowed''"

subsection \<open>String operations of the middleware\<close>

definition toLowerChar :: "char \<Rightarrow> char" where
  "toLowerChar c =
     (let n = (of_char c :: nat) in if 65 \<le> n \<and> n \<le> 90 then char_of (n + 32) else c)"

definition toLowerCase :: "string \<Rightarrow> string" where
  "toLowerCase s = map toLowerChar s"

definition isWhiteSpace :: "char \<Rightarrow> bool" where
  "isWhiteSpace c = ((of_char c :: nat) \<in> {9, 10, 11, 12, 13, 32})"

definition trim :: "string \<Rightarrow> string" where
  "trim s = rev (dropWhile isWhiteSpace (rev (dropWhile isWhiteSpace s)))"

text \<open>\<^verbatim>\<open>s.replace(/^https?:\/\//, '')\<close>\<close>

definition stripScheme :: "string \<Rightarrow> string" where
  "stripScheme s =
     (if startsWith s ''http://'' then drop 7 s
      else if startsWith s ''https://'' then drop 8 s
      else s)"

text \<open>\<^verbatim>\<open>s.split(',')[0]\<close>\<close>

definition firstCommaField :: "string \<Rightarrow> string" where
  "firstCommaField s = takeWhile (\<lambda>c. c \<noteq> CHR '','') s"

definition digitChar :: "nat \<Rightarrow> char" where
  "digitChar n = char_of (48 + n)"

fun showNat :: "nat \<Rightarrow> string" where
  "showNat n = (if n < 10 then [digitChar n] else showNat (n div 10) @ [digitChar (n mod 10)])"

declare showNat.simps [simp del]

definition showInt :: "int \<Rightarrow> string" where
  "showInt i = (if i < 0 then ''-'' @ showNat (nat (- i)) else showNat (nat i))"

subsection \<open>Security middleware\<close>

definition asPartialConnection :: "ConnectionRateLimitConfig \<Rightarrow> PartialConnectionRateLimitConfig" where
  "asPartialConnection c =
     \<lparr>optMaxConnectionsPerUser = Some (maxConnectionsPerUser c),
      optMaxConnectionsPerIp = Some (maxConnectionsPerIp c),
      optConnWindowMs = Some (connWindowMs c)\<rparr>"

definition asPartialRateLimit :: "RateLimitConfig \<Rightarrow> PartialRateLimitConfig" where
  "asPartialRateLimit c = \<lparr>optWindowMs = Some (windowMs c), optMaxRequests = Some (maxRequests c)\<rparr>"

definition resolveConfig :: "PartialSecurityConfig \<Rightarrow> WebSocketSecurityConfig" where
  "resolveConfig c =
     \<lparr>allowedOrigins = (case optAllowedOrigins c of None \<Rightarrow> ALLOWED_ORIGINS | Some os \<Rightarrow> os),
      jwtSecret = givenJwtSecret c,
      jwtAlgorithm = (case optJwtAlgorithm c of
                        None \<Rightarrow> ''HS256''
                      | Some a \<Rightarrow> if a = [] then ''HS256'' else a),
      connectionRateLimit =
        (case optConnectionRateLimit c of
           None \<Rightarrow> DEFAULT_CONNECTION_RATE_LIMIT
         | Some p \<Rightarrow> mergeConnectionConfig DEFAULT_CONNECTION_RATE_LIMIT p),
      messageRateLimits =
        (case optMessageRateLimits c of
           None \<Rightarrow> DEFAULT_MESSAGE_RATE_LIMITS
         | Some m \<Rightarrow> DEFAULT_MESSAGE_RATE_LIMITS ++ m),
      defaultRateLimit =
        (case optDefaultRateLimit c of
           None \<Rightarrow> DEFAULT_RATE_LIMIT
         | Some p \<Rightarrow> mergeRateLimitConfig DEFAULT_RATE_LIMIT p),
      enableLogging = (optEnableLogging c \<noteq> Some False)\<rparr>"

definition newWebSocketSecurityMiddleware ::
  "PartialSecurityConfig \<Rightarrow> RedisClient option \<Rightarrow> LogEntry list \<Rightarrow> Error + WebSocketSecurityMiddleware" where
  "newWebSocketSecurityMiddleware c rd lg =
     (let cfg = resolveConfig c in
      case createWebSocketAuthHandler (jwtSecret cfg) (Some (jwtAlgorithm cfg)) of
        Inl e \<Rightarrow> Inl e
      | Inr h \<Rightarrow>
          Inr \<lparr>config = cfg,
               authHandler = h,
               rateLimiter =
                 createWebSocketRateLimiter (asPartialConnection (connectionRateLimit cfg))
                   (messageRateLimits cfg) (asPartialRateLimit (defaultRateLimit cfg)) rd,
               logger = lg,
               connectionContexts = Map.empty\<rparr>)"

definition createWebSocketSecurityMiddleware ::
  "PartialSecurityConfig \<Rightarrow> RedisClient option \<Rightarrow> LogEntry list \<Rightarrow> Error + WebSocketSecurityMiddleware" where
  "createWebSocketSecurityMiddleware c rd lg = newWebSocketSecurityMiddleware c rd lg"

definition extractOrigin :: "WebSocketUpgradeRequest \<Rightarrow> string option" where
  "extractOrigin request =
     (case headers request ''origin'' of
        Some (Single s) \<Rightarrow> Some s
      | Some (Multiple (x # xs)) \<Rightarrow> Some x
      | _ \<Rightarrow> None)"

definition extractIp :: "WebSocketUpgradeRequest \<Rightarrow> string" where
  "extractIp request =
     (case headers request ''x-forwarded-for'' of
        Some (Single f) \<Rightarrow> trim (firstCommaField f)
      | Some (Multiple (f # fs)) \<Rightarrow> trim (firstCommaField f)
      | _ \<Rightarrow>
          (case headers request ''x-real-ip'' of
             Some (Single r) \<Rightarrow> r
           | Some (Multiple (r # rs)) \<Rightarrow> r
           | _ \<Rightarrow>
               (case remoteAddress request of
                  Some a \<Rightarrow> if a = [] then ''unknown'' else a
                | None \<Rightarrow> ''unknown'')))"

definition generateConnectionId :: "Env \<Rightarrow> nat \<Rightarrow> string" where
  "generateConnectionId env site = ''ws_'' @ showInt (dateNow env) @ ''_'' @ mathRandom env site"

definition logSecurityEvent ::
  "WebSocketSecurityMiddleware \<Rightarrow> SecurityAuditLog \<Rightarrow> WebSocketSecurityMiddleware" where
  "logSecurityEvent mw ev =
     (if enableLogging (config mw) then mw\<lparr>logger := logger mw @ [LogEvent ev]\<rparr> else mw)"

definition originAllowed :: "string list \<Rightarrow> string \<Rightarrow> bool" where
  "originAllowed allowList normalizedOrigin =
     list_ex (\<lambda>a. let normalizedAllowed = trim (toLowerCase a) in
                  normalizedOrigin = normalizedAllowed \<or>
                  endsWith normalizedOrigin (''.'' @ stripScheme normalizedAllowed))
       allowList"

definition validateOrigin ::
  "WebSocketSecurityMiddleware \<Rightarrow> WebSocketUpgradeRequest \<Rightarrow> Env \<Rightarrow>
   ValidationResult \<times> WebSocketSecurityMiddleware" where
  "validateOrigin mw request env =
     (let origin = extractOrigin request;
          ip = extractIp request
      in
      case origin of
        None \<Rightarrow>
          (\<lparr>valid = True, validationError = None, validationCode = None\<rparr>,
           if enableLogging (config mw)
           then mw\<lparr>logger := logger mw @
                  [LogWarn ''Missing Origin header in WebSocket request'' [(''ip'', DString ip)]]\<rparr>
           else mw)
      | Some og \<Rightarrow>
          if og = [] then
            (\<lparr>valid = True, validationError = None, validationCode = None\<rparr>,
             if enableLogging (config mw)
             then mw\<lparr>logger := logger mw @
                    [LogWarn ''Missing Origin header in WebSocket request'' [(''ip'', DString ip)]]\<rparr>
             else mw)
          else
            let normalizedOrigin = trim (toLowerCase og) in
            if \<not> originAllowed (allowedOrigins (config mw)) normalizedOrigin then
              (\<lparr>valid = False, validationError = Some UNAUTHORIZED_ORIGIN_ERROR,
                validationCode = Some 403\<rparr>,
               logSecurityEvent mw
                 \<lparr>timestamp = dateNow env, event = ORIGIN_VALIDATION_FAILED,
                  logConnectionId = generateConnectionId env 0, logIp = ip, logOrigin = Some og,
                  logUserId = None,
                  details = [(''reason'', DString CSWSH_PROTECTION_ERROR),
                             (''attemptedOrigin'', DString og),
                             (''allowedOrigins'', DStrings (allowedOrigins (config mw)))],
                  blocked = True\<rparr>)
            else
              (\<lparr>valid = True, validationError = None, validationCode = None\<rparr>,
               logSecurityEvent mw
                 \<lparr>timestamp = dateNow env, event = ORIGIN_VALIDATION_PASSED,
                  logConnectionId = generateConnectionId env 0, logIp = ip, logOrigin = Some og,
                  logUserId = None,
                  details = [(''validatedOrigin'', DString og)],
                  blocked = False\<rparr>))"


definition detailOfString :: "string option \<Rightarrow> Detail" where
  "detailOfString v = (case v of None \<Rightarrow> DUndefined | Some x \<Rightarrow> DString x)"

definition detailOfNumber :: "int option \<Rightarrow> Detail" where
  "detailOfNumber v = (case v of None \<Rightarrow> DUndefined | Some x \<Rightarrow> DNumber x)"

definition headerUserAgent :: "WebSocketUpgradeRequest \<Rightarrow> string" where
  "headerUserAgent request =
     (case headers request ''user-agent'' of
        Some (Single a) \<Rightarrow> if a = [] then ''unknown'' else a
      | _ \<Rightarrow> ''unknown'')"

definition middleware_authenticate ::
  "'w External \<Rightarrow> WebSocketSecurityMiddleware \<Rightarrow> WebSocketUpgradeRequest \<Rightarrow> Env \<Rightarrow> 'w \<Rightarrow>
   AuthenticationResult \<times> WebSocketSecurityMiddleware \<times> 'w" where
  "middleware_authenticate ext mw request env w =
     (let origin = extractOrigin request;
          ip = extractIp request;
          cid = generateConnectionId env 1;
          (result, w') = authenticate ext (authHandler mw) request (randomUUID env) w
      in
      if \<not> success result then
        (result,
         logSecurityEvent mw
           \<lparr>timestamp = dateNow env, event = AUTHENTICATION_FAILED, logConnectionId = cid,
            logIp = ip, logOrigin = origin, logUserId = None,
            details = [(''reason'', detailOfString (authError result)),
                       (''code'', detailOfNumber (authCode result))],
            blocked = True\<rparr>,
         w')
      else
        let ctx = \<lparr>ctxUser = user result,
                   ctxIp = ip,
                   ctxOrigin = (case origin of None \<Rightarrow> ''unknown''
                                | Some og \<Rightarrow> if og = [] then ''unknown'' else og),
                   userAgent = headerUserAgent request,
                   connectionTime = dateNow env,
                   lastActivity = dateNow env,
                   messageCount = 0,
                   connectionId = cid\<rparr>;
            mw1 = mw\<lparr>connectionContexts := (connectionContexts mw)(cid \<mapsto> ctx)\<rparr>
        in
        (result,
         logSecurityEvent mw1
           \<lparr>timestamp = dateNow env, event = AUTHENTICATION_SUCCESS, logConnectionId = cid,
            logIp = ip, logOrigin = origin, logUserId = map_option userId (user result),
            details = [(''userId'', detailOfString (map_option userId (user result))),
                       (''email'', detailOfString (map_option email (user result)))],
            blocked = False\<rparr>,
         w'))"

definition middleware_checkConnectionRateLimit ::
  "WebSocketSecurityMiddleware \<Rightarrow> string \<Rightarrow> string \<Rightarrow> Env \<Rightarrow>
   RateLimitResult \<times> WebSocketSecurityMiddleware" where
  "middleware_checkConnectionRateLimit mw uid ip env =
     (let (result, lim) = checkConnectionRateLimit (rateLimiter mw) uid ip (dateNow env);
          mw1 = mw\<lparr>rateLimiter := lim\<rparr>
      in
      if \<not> allowed result then
        (result,
         logSecurityEvent mw1
           \<lparr>timestamp = dateNow env, event = CONNECTION_RATE_LIMIT_EXCEEDED,
            logConnectionId = generateConnectionId env 2, logIp = ip, logOrigin = None,
            logUserId = Some uid,
            details = [(''retryAfter'', detailOfNumber (retryAfter result)),
                       (''remaining'', DNumber (remaining result))],
            blocked = True\<rparr>)
      else (result, mw1))"

definition middleware_checkMessageRateLimit ::
  "WebSocketSecurityMiddleware \<Rightarrow> string \<Rightarrow> string \<Rightarrow> Env \<Rightarrow>
   RateLimitResult \<times> WebSocketSecurityMiddleware" where
  "middleware_checkMessageRateLimit mw cid messageType env =
     (let (result, lim) = checkMessageRateLimit (rateLimiter mw) cid messageType (dateNow env);
          mw1 = mw\<lparr>rateLimiter := lim\<rparr>;
          found = connectionContexts mw1 cid
      in
      if \<not> allowed result then
        (result,
         logSecurityEvent mw1
           \<lparr>timestamp = dateNow env, event = MESSAGE_RATE_LIMIT_EXCEEDED, logConnectionId = cid,
            logIp = (case found of None \<Rightarrow> ''unknown''
                     | Some c \<Rightarrow> if ctxIp c = [] then ''unknown'' else ctxIp c),
            logOrigin = None,
            logUserId = (case found of None \<Rightarrow> None | Some c \<Rightarrow> map_option userId (ctxUser c)),
            details = [(''messageType'', DString messageType),
                       (''retryAfter'', detailOfNumber (retryAfter result))],
            blocked = True\<rparr>)
      else
        (case found of
           Some c \<Rightarrow>
             (result,
              mw1\<lparr>connectionContexts :=
                    (connectionContexts mw1)
                      (cid \<mapsto> c\<lparr>messageCount := messageCount c + 1, lastActivity := dateNow env\<rparr>)\<rparr>)
         | None \<Rightarrow> (result, mw1)))"

definition handleConnectionClose ::
  "WebSocketSecurityMiddleware \<Rightarrow> string \<Rightarrow> Env \<Rightarrow> WebSocketSecurityMiddleware" where
  "handleConnectionClose mw cid env =
     (let found = connectionContexts mw cid;
          lim = (case found of
                   Some c \<Rightarrow>
                     (case ctxUser c of
                        Some u \<Rightarrow> decrementConnectionCounter (rateLimiter mw) (userId u) (ctxIp c)
                      | None \<Rightarrow> rateLimiter mw)
                 | None \<Rightarrow> rateLimiter mw);
          mw1 = mw\<lparr>rateLimiter := lim, connectionContexts := (connectionContexts mw)(cid := None)\<rparr>
      in
      logSecurityEvent mw1
        \<lparr>timestamp = dateNow env, event = CONNECTION_CLOSED, logConnectionId = cid,
         logIp = (case found of None \<Rightarrow> ''unknown''
                  | Some c \<Rightarrow> if ctxIp c = [] then ''unknown'' else ctxIp c),
         logOrigin = None,
         logUserId = (case found of None \<Rightarrow> None | Some c \<Rightarrow> map_option userId (ctxUser c)),
         details = [(''duration'', DNumber (case found of None \<Rightarrow> 0
                                            | Some c \<Rightarrow> dateNow env - connectionTime c)),
                    (''messageCount'', DNumber (case found of None \<Rightarrow> 0 | Some c \<Rightarrow> messageCount c))],
         blocked = False\<rparr>)"

definition getConnectionContext ::
  "WebSocketSecurityMiddleware \<Rightarrow> string \<Rightarrow> WebSocketConnectionContext option" where
  "getConnectionContext mw cid = connectionContexts mw cid"

definition performSecurityCheck ::
  "'w External \<Rightarrow> WebSocketSecurityMiddleware \<Rightarrow> WebSocketUpgradeRequest \<Rightarrow> Env \<Rightarrow> 'w \<Rightarrow>
   SecurityCheckResult \<times> WebSocketSecurityMiddleware \<times> 'w" where
  "performSecurityCheck ext mw request env w =
     (let (originResult, mw1) = validateOrigin mw request env in
      if \<not> valid originResult then
        (\<lparr>checkAllowed = False, checkResult = None, checkError = validationError originResult,
          checkCode = validationCode originResult\<rparr>, mw1, w)
      else
        let (authResult, mw2, w2) = middleware_authenticate ext mw1 request env w in
        if \<not> success authResult then
          (\<lparr>checkAllowed = False, checkResult = None, checkError = authError authResult,
            checkCode = authCode authResult\<rparr>, mw2, w2)
        else
          let (limited, mw3) =
                (case user authResult of
                   Some u \<Rightarrow>
                     (let (rateLimitResult, m) =
                            middleware_checkConnectionRateLimit mw2 (userId u) (extractIp request) env
                      in (\<not> allowed rateLimitResult, m))
                 | None \<Rightarrow> (False, mw2))
          in
          if limited then
            (\<lparr>checkAllowed = False, checkResult = None,
              checkError = Some ''Rate limit exceeded. Too many connections.'',
              checkCode = Some 429\<rparr>, mw3, w2)
          else
            (\<lparr>checkAllowed = True, checkResult = Some authResult, checkError = None,
              checkCode = None\<rparr>,
             logSecurityEvent mw3
               \<lparr>timestamp = dateNow env, event = CONNECTION_ACCEPTED,
                logConnectionId = generateConnectionId env 3, logIp = extractIp request,
                logOrigin = extractOrigin request,
                logUserId = map_option userId (user authResult),
                details = [(''userId'', detailOfString (map_option userId (user authResult))),
                           (''email'', detailOfString (map_option email (user authResult)))],
                blocked = False\<rparr>,
             w2))"

definition destroy :: "WebSocketSecurityMiddleware \<Rightarrow> WebSocketSecurityMiddleware" where
  "destroy mw = mw\<lparr>rateLimiter := destroyRateLimiter (rateLimiter mw), connectionContexts := Map.empty\<rparr>"

subsection \<open>Calling patterns used in the statements\<close>


definition pairedCheckIncrement ::
  "WebSocketRateLimiter \<Rightarrow> string \<Rightarrow> int \<Rightarrow> int \<Rightarrow> int \<Rightarrow> bool \<times> WebSocketRateLimiter" where
  "pairedCheckIncrement lim key maxReq wMs now =
     (let result = checkRateLimit lim key maxReq wMs now in
      if allowed result then (True, incrementCounter lim key wMs now) else (False, lim))"







text \<open>The state stored for a key in the backend in use, before any reading of time.\<close>

definition rawState :: "WebSocketRateLimiter \<Rightarrow> string \<Rightarrow> RateLimitState option" where
  "rawState lim key =
     (case redis lim of
        Some r \<Rightarrow> map_option entryState (r key)
      | None \<Rightarrow> memoryStorage lim key)"

subsection \<open>Fixtures of the test suite\<close>

text \<open>
  The middleware of \<^verbatim>\<open>websocket-security.test.ts\<close>, and stand-ins for the two
  library calls on the inputs of the tests: a parser that rejects an empty or blank
  host and reads the query pairs, and a verifier that counts its calls, accepts the
  token \<^verbatim>\<open>valid\<close> for user \<^verbatim>\<open>user123\<close> and reports the token
  \<^verbatim>\<open>expired\<close> as expired. They are inputs of the closed examples only; every
  general statement is about an arbitrary parser and verifier.
\<close>

definition JWT_SECRET :: string where
  "JWT_SECRET = ''test-secret-key-that-is-at-least-32-characters-long''"

definition testConfig :: PartialSecurityConfig where
  "testConfig =
     \<lparr>optAllowedOrigins = Some ALLOWED_ORIGINS, givenJwtSecret = JWT_SECRET, optJwtAlgorithm = None,
      optConnectionRateLimit = None, optMessageRateLimits = None, optDefaultRateLimit = None,
      optEnableLogging = Some True\<rparr>"

definition testMiddleware :: WebSocketSecurityMiddleware where
  "testMiddleware =
     \<lparr>config = resolveConfig testConfig,
      authHandler = \<lparr>secret = JWT_SECRET, algorithm = ''HS256''\<rparr>,
      rateLimiter =
        \<lparr>redis = None, memoryStorage = Map.empty,
         connectionConfig = DEFAULT_CONNECTION_RATE_LIMIT,
         messageLimits = DEFAULT_MESSAGE_RATE_LIMITS,
         defaultLimit = DEFAULT_RATE_LIMIT\<rparr>,
      logger = [],
      connectionContexts = Map.empty\<rparr>"

fun splitOn :: "char \<Rightarrow> string \<Rightarrow> string list" where
  "splitOn c [] = [[]]"
| "splitOn c (x # xs) =
     (if x = c then [] # splitOn c xs
      else (case splitOn c xs of [] \<Rightarrow> [[x]] | y # ys \<Rightarrow> (x # y) # ys))"

definition testParseURL :: "string \<Rightarrow> (string \<Rightarrow> string option) option" where
  "testParseURL s =
     (let rest = drop (if startsWith s ''wss://'' then 6 else 5) s;
          host = takeWhile (\<lambda>c. c \<noteq> CHR ''/'' \<and> c \<noteq> CHR ''?'' \<and> c \<noteq> CHR ''#'') rest;
          query = takeWhile (\<lambda>c. c \<noteq> CHR ''#'') (drop 1 (dropWhile (\<lambda>c. c \<noteq> CHR ''?'') rest))
      in
      if host = [] \<or> CHR '' '' \<in> set host then None
      else Some (map_of (map (\<lambda>kv. (takeWhile (\<lambda>c. c \<noteq> CHR ''='') kv,
                                       drop 1 (dropWhile (\<lambda>c. c \<noteq> CHR ''='') kv)))
                          (splitOn CHR ''&'' query))))"

definition testJwtVerify :: "string \<Rightarrow> string \<Rightarrow> string \<Rightarrow> nat \<Rightarrow> (JoseError + JWTPayload) \<times> nat" where
  "testJwtVerify tok key alg calls =
     (if tok = ''valid'' \<and> key = JWT_SECRET \<and> alg = ''HS256'' then
        Inr \<lparr>sub = Some ''user123'', payloadEmail = Some ''user@example.com'', payloadRoles = None,
             payloadPermissions = None, sid = None\<rparr>
      else if tok = ''expired'' then Inl (ErrorNamed ''JWTExpired'' ''exp claim timestamp check failed'')
      else Inl (ErrorNamed ''JWSInvalid'' ''Invalid Compact JWS''),
      Suc calls)"

definition testExternal :: "nat External" where
  "testExternal = \<lparr>parseURL = testParseURL, jwtVerify = testJwtVerify\<rparr>"

definition testEnv :: "int \<Rightarrow> Env" where
  "testEnv t = \<lparr>dateNow = t, mathRandom = (\<lambda>site. ''k3x9q2m'' @ showNat site),
                randomUUID = ''3f2b8c1e-0000-4000-8000-000000000000''\<rparr>"

text \<open>The test middleware configured with \<^verbatim>\<open>connectionRateLimit: { maxConnectionsPerUser: 1 }\<close>.\<close>

definition testMiddlewareOnePerUser :: WebSocketSecurityMiddleware where
  "testMiddlewareOnePerUser =
     testMiddleware
       \<lparr>config := (config testMiddleware)
          \<lparr>connectionRateLimit :=
             \<lparr>maxConnectionsPerUser = 1, maxConnectionsPerIp = 10, connWindowMs = 60000\<rparr>\<rparr>,
        rateLimiter := (rateLimiter testMiddleware)
          \<lparr>connectionConfig :=
             \<lparr>maxConnectionsPerUser = 1, maxConnectionsPerIp = 10, connWindowMs = 60000\<rparr>\<rparr>\<rparr>"

definition testRequest :: "string \<Rightarrow> string \<Rightarrow> WebSocketUpgradeRequest" where
  "testRequest og u =
     \<lparr>headers = [''origin'' \<mapsto> Single og], remoteAddress = Some ''192.168.1.1'', url = Some u\<rparr>"

section \<open>Properties of the rate limiter\<close>

subsection \<open>Paired calls on the in-process backend\<close>

lemma checkMessageRateLimit_paired:
  "allowed (fst (checkMessageRateLimit lim cid messageType now)) =
     fst (pairedCheckIncrement lim (getMessageKey cid messageType)
            (maxRequests (limitConfigFor lim messageType)) (windowMs (limitConfigFor lim messageType)) now)"
  "snd (checkMessageRateLimit lim cid messageType now) =
     snd (pairedCheckIncrement lim (getMessageKey cid messageType)
            (maxRequests (limitConfigFor lim messageType)) (windowMs (limitConfigFor lim messageType)) now)"
  by (simp_all add: checkMessageRateLimit_def pairedCheckIncrement_def Let_def)








subsection \<open>C2: the quota of a key is a ceiling\<close>




subsection \<open>Frame lemmas of the limiter\<close>

lemma connection_keys_distinct: "getConnectionKeyUser u \<noteq> getConnectionKeyIp i"
  by (simp add: getConnectionKeyUser_def getConnectionKeyIp_def)

lemma incrementCounter_config:
  "connectionConfig (incrementCounter lim key w t) = connectionConfig lim"
  "messageLimits (incrementCounter lim key w t) = messageLimits lim"
  "defaultLimit (incrementCounter lim key w t) = defaultLimit lim"
  "(redis (incrementCounter lim key w t) = None) = (redis lim = None)"
  by (simp_all add: incrementCounter_def Let_def split: option.splits)



lemma incrementCounter_memory:
  assumes "redis lim = None"
  shows "map_option count (memoryStorage (incrementCounter lim key w t) key) =
           Some (case memoryStorage lim key of
                   None \<Rightarrow> 1
                 | Some st \<Rightarrow> if t > resetTime st then 1 else count st + 1)"
  using assms
  by (auto simp: incrementCounter_def incrementMemoryCounter_def Let_def split: option.splits)

lemma incrementCounter_memory_other:
  assumes "redis lim = None" "k \<noteq> key"
  shows "memoryStorage (incrementCounter lim key w t) k = memoryStorage lim k"
  using assms
  by (auto simp: incrementCounter_def incrementMemoryCounter_def Let_def split: option.splits)

subsection \<open>C4: connection admission checks two keys\<close>

text \<open>
  C4, as amended. \<open>checkConnectionRateLimit\<close> checks the per-user key and the per-address
  key on the same limiter state and reports \<open>allowed = true\<close> exactly when both checks
  allow. When allowed, the reported \<open>remaining\<close> is the minimum of the two checks'
  \<open>remaining\<close> minus one (the quota left once this connection is counted), and both
  counters are incremented, the user's and then the address's; on the in-process
  backend each stored count becomes 1 for a key without current state and one more than
  before otherwise. When either check denies, the limiter is left as it was: neither
  counter is incremented.
\<close>

theorem connection_admission_two_keys:
  assumes "u = checkRateLimit lim (getConnectionKeyUser uid)
                 (maxConnectionsPerUser (connectionConfig lim)) (connWindowMs (connectionConfig lim)) now"
    and "i = checkRateLimit lim (getConnectionKeyIp ip)
                 (maxConnectionsPerIp (connectionConfig lim)) (connWindowMs (connectionConfig lim)) now"
    and "checkConnectionRateLimit lim uid ip now = (r, lim')"
  shows "allowed r = (allowed u \<and> allowed i)
    \<and> (allowed r \<longrightarrow>
          remaining r = min (remaining u) (remaining i) - 1
        \<and> lim' = incrementCounter
                   (incrementCounter lim (getConnectionKeyUser uid) (connWindowMs (connectionConfig lim)) now)
                   (getConnectionKeyIp ip) (connWindowMs (connectionConfig lim)) now)
    \<and> (allowed r \<and> redis lim = None \<longrightarrow>
          map_option count (memoryStorage lim' (getConnectionKeyUser uid)) =
            Some (case memoryStorage lim (getConnectionKeyUser uid) of
                    None \<Rightarrow> 1
                  | Some st \<Rightarrow> if now > resetTime st then 1 else count st + 1)
        \<and> map_option count (memoryStorage lim' (getConnectionKeyIp ip)) =
            Some (case memoryStorage lim (getConnectionKeyIp ip) of
                    None \<Rightarrow> 1
                  | Some st \<Rightarrow> if now > resetTime st then 1 else count st + 1))
    \<and> (\<not> allowed r \<longrightarrow> lim' = lim)"
proof -
  let ?W = "connWindowMs (connectionConfig lim)"
  let ?uk = "getConnectionKeyUser uid"
  let ?ik = "getConnectionKeyIp ip"
  let ?l1 = "incrementCounter lim ?uk ?W now"
  have a: "allowed r = (allowed u \<and> allowed i)"
    using assms by (auto simp: checkConnectionRateLimit_def Let_def split: if_splits)
  have d: "\<not> allowed r \<longrightarrow> lim' = lim"
    using assms by (auto simp: checkConnectionRateLimit_def Let_def split: if_splits)
  have b: "allowed r \<longrightarrow> remaining r = min (remaining u) (remaining i) - 1
                        \<and> lim' = incrementCounter ?l1 ?ik ?W now"
    using assms by (auto simp: checkConnectionRateLimit_def Let_def split: if_splits)
  have c: "map_option count (memoryStorage lim' ?uk) =
            Some (case memoryStorage lim ?uk of
                    None \<Rightarrow> 1 | Some st \<Rightarrow> if now > resetTime st then 1 else count st + 1)
        \<and> map_option count (memoryStorage lim' ?ik) =
            Some (case memoryStorage lim ?ik of
                    None \<Rightarrow> 1 | Some st \<Rightarrow> if now > resetTime st then 1 else count st + 1)"
    if "allowed r" "redis lim = None"
  proof -
    have l: "lim' = incrementCounter ?l1 ?ik ?W now" using b that by simp
    have r1: "redis ?l1 = None" using that(2) incrementCounter_config(4)[of lim] by simp
    have "memoryStorage lim' ?uk = memoryStorage ?l1 ?uk"
      unfolding l using incrementCounter_memory_other[OF r1 connection_keys_distinct] .
    moreover have "memoryStorage ?l1 ?ik = memoryStorage lim ?ik"
      using incrementCounter_memory_other[OF that(2) connection_keys_distinct[symmetric]] .
    ultimately show ?thesis
      unfolding l
      using incrementCounter_memory[OF that(2), of ?uk ?W now]
            incrementCounter_memory[OF r1, of ?ik ?W now]
      by simp
  qed
  from a b c d show ?thesis by blast
qed


lemma default_limiter_facts:
  "connectionConfig (createWebSocketRateLimiter
          \<lparr>optMaxConnectionsPerUser = None, optMaxConnectionsPerIp = None, optConnWindowMs = None\<rparr>
          Map.empty \<lparr>optWindowMs = None, optMaxRequests = None\<rparr> None) = DEFAULT_CONNECTION_RATE_LIMIT"
  "redis (createWebSocketRateLimiter
          \<lparr>optMaxConnectionsPerUser = None, optMaxConnectionsPerIp = None, optConnWindowMs = None\<rparr>
          Map.empty \<lparr>optWindowMs = None, optMaxRequests = None\<rparr> None) = None"
  "memoryStorage (createWebSocketRateLimiter
          \<lparr>optMaxConnectionsPerUser = None, optMaxConnectionsPerIp = None, optConnWindowMs = None\<rparr>
          Map.empty \<lparr>optWindowMs = None, optMaxRequests = None\<rparr> None) = Map.empty"
  by (simp_all add: createWebSocketRateLimiter_def mergeConnectionConfig_def)

theorem connection_admission_two_keys_witness:
  "allowed (fst (checkConnectionRateLimit (createWebSocketRateLimiter
          \<lparr>optMaxConnectionsPerUser = None, optMaxConnectionsPerIp = None, optConnWindowMs = None\<rparr>
          Map.empty \<lparr>optWindowMs = None, optMaxRequests = None\<rparr> None) ''u1'' ''10.0.0.1'' 1000))
   \<and> remaining (fst (checkConnectionRateLimit (createWebSocketRateLimiter
          \<lparr>optMaxConnectionsPerUser = None, optMaxConnectionsPerIp = None, optConnWindowMs = None\<rparr>
          Map.empty \<lparr>optWindowMs = None, optMaxRequests = None\<rparr> None) ''u1'' ''10.0.0.1'' 1000)) = 4
   \<and> map_option count
        (memoryStorage (snd (checkConnectionRateLimit (createWebSocketRateLimiter
          \<lparr>optMaxConnectionsPerUser = None, optMaxConnectionsPerIp = None, optConnWindowMs = None\<rparr>
          Map.empty \<lparr>optWindowMs = None, optMaxRequests = None\<rparr> None) ''u1'' ''10.0.0.1'' 1000))
           (getConnectionKeyUser ''u1'')) = Some 1
   \<and> map_option count
        (memoryStorage (snd (checkConnectionRateLimit (createWebSocketRateLimiter
          \<lparr>optMaxConnectionsPerUser = None, optMaxConnectionsPerIp = None, optConnWindowMs = None\<rparr>
          Map.empty \<lparr>optWindowMs = None, optMaxRequests = None\<rparr> None) ''u1'' ''10.0.0.1'' 1000))
           (getConnectionKeyIp ''10.0.0.1'')) = Some 1"
proof -
  let ?lim = "(createWebSocketRateLimiter
          \<lparr>optMaxConnectionsPerUser = None, optMaxConnectionsPerIp = None, optConnWindowMs = None\<rparr>
          Map.empty \<lparr>optWindowMs = None, optMaxRequests = None\<rparr> None)"
  let ?u = "checkRateLimit ?lim (getConnectionKeyUser ''u1'')
              (maxConnectionsPerUser (connectionConfig ?lim)) (connWindowMs (connectionConfig ?lim)) 1000"
  let ?i = "checkRateLimit ?lim (getConnectionKeyIp ''10.0.0.1'')
              (maxConnectionsPerIp (connectionConfig ?lim)) (connWindowMs (connectionConfig ?lim)) 1000"
  have u: "allowed ?u" "remaining ?u = 5"
    by (simp_all add: default_limiter_facts checkRateLimit_def checkMemoryRateLimit_def
        DEFAULT_CONNECTION_RATE_LIMIT_def)
  have i: "allowed ?i" "remaining ?i = 10"
    by (simp_all add: default_limiter_facts checkRateLimit_def checkMemoryRateLimit_def
        DEFAULT_CONNECTION_RATE_LIMIT_def)
  have m: "redis ?lim = None" "memoryStorage ?lim (getConnectionKeyUser ''u1'') = None"
    "memoryStorage ?lim (getConnectionKeyIp ''10.0.0.1'') = None"
    by (simp_all add: default_limiter_facts)
  let ?x = "checkConnectionRateLimit ?lim ''u1'' ''10.0.0.1'' 1000"
  note t = connection_admission_two_keys[where lim = "?lim" and uid = "''u1''" and ip = "''10.0.0.1''"
        and now = 1000, OF refl refl surjective_pairing]
  have a: "allowed (fst ?x)" using t u(1) i(1) by blast
  have b: "remaining (fst ?x) = min (remaining ?u) (remaining ?i) - 1" using t a by blast
  have c: "map_option count (memoryStorage (snd ?x) (getConnectionKeyUser ''u1'')) =
            Some (case memoryStorage ?lim (getConnectionKeyUser ''u1'') of
                    None \<Rightarrow> 1 | Some st \<Rightarrow> if 1000 > resetTime st then 1 else count st + 1)"
    using t a m(1) by blast
  have d: "map_option count (memoryStorage (snd ?x) (getConnectionKeyIp ''10.0.0.1'')) =
            Some (case memoryStorage ?lim (getConnectionKeyIp ''10.0.0.1'') of
                    None \<Rightarrow> 1 | Some st \<Rightarrow> if 1000 > resetTime st then 1 else count st + 1)"
    using t a m(1) by blast
  show ?thesis
    unfolding b c d u(2) i(2) m(2,3) using a by simp
qed

text \<open>
  C4 as stated fails in its value of \<open>remaining\<close>: with the default quotas (5 per user,
  10 per address) the two checks of a first connection report 5 and 10, whose minimum
  is 5, and the admission reports 4.
\<close>

theorem connection_remaining_counterexample:
  "allowed (fst (checkConnectionRateLimit (createWebSocketRateLimiter
          \<lparr>optMaxConnectionsPerUser = None, optMaxConnectionsPerIp = None, optConnWindowMs = None\<rparr>
          Map.empty \<lparr>optWindowMs = None, optMaxRequests = None\<rparr> None) ''u1'' ''10.0.0.1'' 1000))
   \<and> remaining (fst (checkConnectionRateLimit (createWebSocketRateLimiter
          \<lparr>optMaxConnectionsPerUser = None, optMaxConnectionsPerIp = None, optConnWindowMs = None\<rparr>
          Map.empty \<lparr>optWindowMs = None, optMaxRequests = None\<rparr> None) ''u1'' ''10.0.0.1'' 1000)) = 4
   \<and> min (remaining (checkRateLimit (createWebSocketRateLimiter
          \<lparr>optMaxConnectionsPerUser = None, optMaxConnectionsPerIp = None, optConnWindowMs = None\<rparr>
          Map.empty \<lparr>optWindowMs = None, optMaxRequests = None\<rparr> None) (getConnectionKeyUser ''u1'') 5 60000 1000))
          (remaining (checkRateLimit (createWebSocketRateLimiter
          \<lparr>optMaxConnectionsPerUser = None, optMaxConnectionsPerIp = None, optConnWindowMs = None\<rparr>
          Map.empty \<lparr>optWindowMs = None, optMaxRequests = None\<rparr> None) (getConnectionKeyIp ''10.0.0.1'') 10 60000 1000)) = 5"
  by (simp add: createWebSocketRateLimiter_def mergeConnectionConfig_def
      checkConnectionRateLimit_def checkRateLimit_def checkMemoryRateLimit_def
      DEFAULT_CONNECTION_RATE_LIMIT_def Let_def)

subsection \<open>C6: message counters are kept per connection and message type\<close>








lemma digitChar_not_colon: "k < 10 \<Longrightarrow> digitChar k \<noteq> CHR '':''"
proof -
  assume "k < 10"
  then have "of_char (digitChar k) = 48 + k"
    by (simp add: digitChar_def)
  moreover have "of_char (CHR '':'') = (58::nat)" by simp
  ultimately show ?thesis using \<open>k < 10\<close> by auto
qed

lemma showNat_no_colon: "CHR '':'' \<notin> set (showNat n)"
proof (induction n rule: showNat.induct)
  case (1 n)
  show ?case
  proof (cases "n < 10")
    case True
    then show ?thesis using digitChar_not_colon[of n] by (simp add: showNat.simps[of n])
  next
    case False
    then show ?thesis
      using 1 digitChar_not_colon[of "n mod 10"] by (simp add: showNat.simps[of n])
  qed
qed

lemma generateConnectionId_no_colon:
  "CHR '':'' \<notin> set (mathRandom env site) \<Longrightarrow> CHR '':'' \<notin> set (generateConnectionId env site)"
  by (simp add: generateConnectionId_def showInt_def showNat_no_colon)





subsection \<open>C8: reading and clearing a key\<close>

text \<open>
  C8, as amended. \<open>resetRateLimit\<close> clears the key directly on both backends: afterwards
  nothing is held under the key, \<open>getRateLimitStatus\<close> of the key is null at every time,
  and every other key is untouched. \<open>getRateLimitStatus\<close> returns what the external
  store returns for the key, with no comparison against \<open>resetTime\<close>, on the
  external-store backend; on the in-process backend it returns the stored state only
  while \<open>now \<le> resetTime\<close>, and null when the window has elapsed or nothing is stored.
\<close>

theorem status_and_reset:
  "rawState (resetRateLimit lim key) key = None
   \<and> getRateLimitStatus (resetRateLimit lim key) key now = None
   \<and> (\<forall>k. k \<noteq> key \<longrightarrow>
         rawState (resetRateLimit lim key) k = rawState lim k
       \<and> getRateLimitStatus (resetRateLimit lim key) k now = getRateLimitStatus lim k now)
   \<and> (\<forall>r. redis lim = Some r \<longrightarrow> getRateLimitStatus lim key now = redisGet r key now)
   \<and> (redis lim = None \<longrightarrow>
         getRateLimitStatus lim key now =
           (case memoryStorage lim key of
              None \<Rightarrow> None
            | Some st \<Rightarrow> if now \<le> resetTime st then Some st else None))"
  by (auto simp: rawState_def resetRateLimit_def getRateLimitStatus_def redisDel_def redisGet_def
      split: option.splits)

theorem status_and_reset_witness:
  "getRateLimitStatus
     (resetRateLimit
        (snd (checkMessageRateLimit (createWebSocketRateLimiter
          \<lparr>optMaxConnectionsPerUser = None, optMaxConnectionsPerIp = None, optConnWindowMs = None\<rparr>
          Map.empty \<lparr>optWindowMs = None, optMaxRequests = None\<rparr> None) ''conn1'' ''TEST_MESSAGE'' 10))
        ''ws:msg:conn1:TEST_MESSAGE'')
     ''ws:msg:conn1:TEST_MESSAGE'' 20 = None
   \<and> getRateLimitStatus
        (snd (checkMessageRateLimit (createWebSocketRateLimiter
          \<lparr>optMaxConnectionsPerUser = None, optMaxConnectionsPerIp = None, optConnWindowMs = None\<rparr>
          Map.empty \<lparr>optWindowMs = None, optMaxRequests = None\<rparr> None) ''conn1'' ''TEST_MESSAGE'' 10))
        ''ws:msg:conn1:TEST_MESSAGE'' 20 = Some \<lparr>count = 1, resetTime = 60010\<rparr>
   \<and> getRateLimitStatus
        (snd (checkMessageRateLimit (createWebSocketRateLimiter
          \<lparr>optMaxConnectionsPerUser = None, optMaxConnectionsPerIp = None, optConnWindowMs = None\<rparr>
          Map.empty \<lparr>optWindowMs = None, optMaxRequests = None\<rparr> (Some Map.empty)) ''conn1'' ''TEST_MESSAGE'' 10))
        ''ws:msg:conn1:TEST_MESSAGE'' 20 = Some \<lparr>count = 1, resetTime = 60010\<rparr>"
proof -
  let ?red = "snd (checkMessageRateLimit (createWebSocketRateLimiter
          \<lparr>optMaxConnectionsPerUser = None, optMaxConnectionsPerIp = None, optConnWindowMs = None\<rparr>
          Map.empty \<lparr>optWindowMs = None, optMaxRequests = None\<rparr> (Some Map.empty)) ''conn1'' ''TEST_MESSAGE'' 10)"
  let ?r = "[''ws:msg:conn1:TEST_MESSAGE'' \<mapsto>
              \<lparr>entryState = \<lparr>count = 1, resetTime = 60010\<rparr>, expiresAt = 60010\<rparr>]"
  have rd: "redis ?red = Some ?r"
    by (simp add: checkMessageRateLimit_def limitConfigFor_def checkRateLimit_def
        checkRedisRateLimit_def incrementCounter_def incrementRedisCounter_def redisGet_def
        redisSet_def createWebSocketRateLimiter_def mergeRateLimitConfig_def
        DEFAULT_MESSAGE_RATE_LIMITS_def DEFAULT_RATE_LIMIT_def getMessageKey_def Let_def)
  have c: "getRateLimitStatus ?red ''ws:msg:conn1:TEST_MESSAGE'' 20 =
             redisGet ?r ''ws:msg:conn1:TEST_MESSAGE'' 20"
    using status_and_reset[of ?red "''ws:msg:conn1:TEST_MESSAGE''" 20] rd by blast
  let ?lim = "snd (checkMessageRateLimit (createWebSocketRateLimiter
          \<lparr>optMaxConnectionsPerUser = None, optMaxConnectionsPerIp = None, optConnWindowMs = None\<rparr>
          Map.empty \<lparr>optWindowMs = None, optMaxRequests = None\<rparr> None) ''conn1'' ''TEST_MESSAGE'' 10)"
  have m: "redis ?lim = None"
    "memoryStorage ?lim ''ws:msg:conn1:TEST_MESSAGE'' = Some \<lparr>count = 1, resetTime = 60010\<rparr>"
    by (simp_all add: checkMessageRateLimit_def limitConfigFor_def checkRateLimit_def
        checkMemoryRateLimit_def incrementCounter_def incrementMemoryCounter_def
        createWebSocketRateLimiter_def mergeRateLimitConfig_def
        DEFAULT_MESSAGE_RATE_LIMITS_def DEFAULT_RATE_LIMIT_def getMessageKey_def Let_def)
  note t = status_and_reset[of ?lim "''ws:msg:conn1:TEST_MESSAGE''" 20]
  have a: "getRateLimitStatus (resetRateLimit ?lim ''ws:msg:conn1:TEST_MESSAGE'')
             ''ws:msg:conn1:TEST_MESSAGE'' 20 = None"
    using t by blast
  have b: "getRateLimitStatus ?lim ''ws:msg:conn1:TEST_MESSAGE'' 20 =
           (case memoryStorage ?lim ''ws:msg:conn1:TEST_MESSAGE'' of
              None \<Rightarrow> None
            | Some st \<Rightarrow> if 20 \<le> resetTime st then Some st else None)"
    using t m(1) by blast
  show ?thesis unfolding a b c m(2) by (simp add: redisGet_def)
qed

text \<open>
  C8 as stated fails on the in-process backend: \<open>getRateLimitStatus\<close> compares the clock
  with \<open>resetTime\<close>. A state stored at time 10 with a window of 60000 ms is still stored
  at time 70000 and is reported as null.
\<close>

theorem status_expired_counterexample:
  "rawState (snd (checkMessageRateLimit (createWebSocketRateLimiter
          \<lparr>optMaxConnectionsPerUser = None, optMaxConnectionsPerIp = None, optConnWindowMs = None\<rparr>
          Map.empty \<lparr>optWindowMs = None, optMaxRequests = None\<rparr> None) ''conn1'' ''TEST_MESSAGE'' 10))
     ''ws:msg:conn1:TEST_MESSAGE'' = Some \<lparr>count = 1, resetTime = 60010\<rparr>
   \<and> getRateLimitStatus (snd (checkMessageRateLimit (createWebSocketRateLimiter
          \<lparr>optMaxConnectionsPerUser = None, optMaxConnectionsPerIp = None, optConnWindowMs = None\<rparr>
          Map.empty \<lparr>optWindowMs = None, optMaxRequests = None\<rparr> None) ''conn1'' ''TEST_MESSAGE'' 10))
       ''ws:msg:conn1:TEST_MESSAGE'' 70000 = None"
  by (simp add: rawState_def getRateLimitStatus_def
      checkMessageRateLimit_def limitConfigFor_def checkRateLimit_def
      checkMemoryRateLimit_def incrementCounter_def incrementMemoryCounter_def
      createWebSocketRateLimiter_def mergeRateLimitConfig_def
      DEFAULT_MESSAGE_RATE_LIMITS_def DEFAULT_RATE_LIMIT_def getMessageKey_def Let_def)

section \<open>Properties of the token authenticator\<close>

subsection \<open>C7: a request without a usable token is rejected, not faulted\<close>

text \<open>
  C7. Whatever the URL parser and the verifier are: when the request has no url, or
  \<^verbatim>\<open>new URL\<close> throws on it, or the parsed URL has no \<open>token\<close> parameter, then
  \<open>extractTokenFromUrl\<close> returns null and \<open>authenticate\<close> returns the failure
  \<open>Missing authentication token\<close> with code 401, as a value; the verifier is not
  called (its world is unchanged).
\<close>

theorem missing_token_is_rejected:
  assumes "url request = None
           \<or> (\<exists>u. url request = Some u \<and> parseURL ext (urlStringOf u) = None)
           \<or> (\<exists>u sp. url request = Some u \<and> parseURL ext (urlStringOf u) = Some sp
                       \<and> sp ''token'' = None)"
  shows "extractTokenFromUrl ext request = None
    \<and> authenticate ext h request uuid w =
        (\<lparr>success = False, user = None, authError = Some ''Missing authentication token'',
          authCode = Some 401\<rparr>, w)"
proof -
  have "extractTokenFromUrl ext request = None"
    using assms by (auto simp: extractTokenFromUrl_def split: option.splits)
  then show ?thesis by (simp add: authenticate_def authFailure_def)
qed

theorem missing_token_is_rejected_witness:
  "authenticate testExternal (authHandler testMiddleware)
     \<lparr>headers = Map.empty, remoteAddress = None, url = None\<rparr> ''uuid'' 0
     = (\<lparr>success = False, user = None, authError = Some ''Missing authentication token'',
         authCode = Some 401\<rparr>, 0)
   \<and> authenticate testExternal (authHandler testMiddleware)
       \<lparr>headers = Map.empty, remoteAddress = None, url = Some ''ws://?token=valid''\<rparr> ''uuid'' 0
     = (\<lparr>success = False, user = None, authError = Some ''Missing authentication token'',
         authCode = Some 401\<rparr>, 0)
   \<and> authenticate testExternal (authHandler testMiddleware)
       \<lparr>headers = Map.empty, remoteAddress = None, url = Some ''/ws?tok=valid''\<rparr> ''uuid'' 0
     = (\<lparr>success = False, user = None, authError = Some ''Missing authentication token'',
         authCode = Some 401\<rparr>, 0)"
proof -
  let ?r1 = "\<lparr>headers = Map.empty, remoteAddress = None, url = None\<rparr> :: WebSocketUpgradeRequest"
  let ?r2 = "\<lparr>headers = Map.empty, remoteAddress = None, url = Some ''ws://?token=valid''\<rparr>
               :: WebSocketUpgradeRequest"
  let ?r3 = "\<lparr>headers = Map.empty, remoteAddress = None, url = Some ''/ws?tok=valid''\<rparr>
               :: WebSocketUpgradeRequest"
  have h1: "url ?r1 = None
           \<or> (\<exists>u. url ?r1 = Some u \<and> parseURL testExternal (urlStringOf u) = None)
           \<or> (\<exists>u sp. url ?r1 = Some u \<and> parseURL testExternal (urlStringOf u) = Some sp
                       \<and> sp ''token'' = None)"
    by simp
  have p2: "parseURL testExternal (urlStringOf ''ws://?token=valid'') = None"
    by (simp add: testExternal_def testParseURL_def urlStringOf_def startsWith_def)
  have h2: "url ?r2 = None
           \<or> (\<exists>u. url ?r2 = Some u \<and> parseURL testExternal (urlStringOf u) = None)
           \<or> (\<exists>u sp. url ?r2 = Some u \<and> parseURL testExternal (urlStringOf u) = Some sp
                       \<and> sp ''token'' = None)"
    using p2 by simp
  have p3: "parseURL testExternal (urlStringOf ''/ws?tok=valid'') = Some [''tok'' \<mapsto> ''valid'']"
    by (simp add: testExternal_def testParseURL_def urlStringOf_def startsWith_def)
  have h3: "url ?r3 = None
           \<or> (\<exists>u. url ?r3 = Some u \<and> parseURL testExternal (urlStringOf u) = None)
           \<or> (\<exists>u sp. url ?r3 = Some u \<and> parseURL testExternal (urlStringOf u) = Some sp
                       \<and> sp ''token'' = None)"
    using p3 by simp
  show ?thesis
    using missing_token_is_rejected[OF h1, of "authHandler testMiddleware" "''uuid''" 0]
      missing_token_is_rejected[OF h2, of "authHandler testMiddleware" "''uuid''" 0]
      missing_token_is_rejected[OF h3, of "authHandler testMiddleware" "''uuid''" 0]
    by blast
qed

subsection \<open>C9: a short secret stops the construction\<close>

text \<open>
  C9. For every secret shorter than 32 characters \<open>createWebSocketAuthHandler\<close> throws
  an error and returns no handler, and so does the constructor of the middleware for
  every configuration with that secret, whatever its other options: no middleware
  exists on which a request could be checked. With 32 characters or more both
  constructions return an instance.
\<close>

theorem short_secret_refused:
  "length s < 32 \<longrightarrow>
     createWebSocketAuthHandler s alg = Inl (Error ''JWT secret must be at least 32 characters long'')
     \<and> (\<forall>c rd lg. givenJwtSecret c = s \<longrightarrow>
           newWebSocketSecurityMiddleware c rd lg =
             Inl (Error ''JWT secret must be at least 32 characters long'')
         \<and> createWebSocketSecurityMiddleware c rd lg =
             Inl (Error ''JWT secret must be at least 32 characters long''))"
  by (simp add: createWebSocketAuthHandler_def newWebSocketSecurityMiddleware_def
      createWebSocketSecurityMiddleware_def resolveConfig_def Let_def)

lemma long_secret_accepted:
  "32 \<le> length s \<Longrightarrow> \<exists>h. createWebSocketAuthHandler s alg = Inr h"
  "32 \<le> length (givenJwtSecret c) \<Longrightarrow> \<exists>mw. createWebSocketSecurityMiddleware c rd lg = Inr mw"
  by (auto simp: createWebSocketAuthHandler_def newWebSocketSecurityMiddleware_def
      createWebSocketSecurityMiddleware_def resolveConfig_def Let_def)

theorem short_secret_refused_witness:
  "createWebSocketAuthHandler ''short'' None = Inl (Error ''JWT secret must be at least 32 characters long'')
   \<and> createWebSocketSecurityMiddleware (testConfig\<lparr>givenJwtSecret := ''short''\<rparr>) None [] =
       Inl (Error ''JWT secret must be at least 32 characters long'')"
proof -
  have h: "length ''short'' < 32" by simp
  have g: "givenJwtSecret (testConfig\<lparr>givenJwtSecret := ''short''\<rparr>) = ''short''" by simp
  show ?thesis
    using short_secret_refused[of "''short''" None] h g by blast
qed

section \<open>Properties of the security middleware\<close>

subsection \<open>C5: origin validation\<close>








subsection \<open>Effects of the stages\<close>

lemma logSecurityEvent_frame:
  "rateLimiter (logSecurityEvent mw ev) = rateLimiter mw"
  "connectionContexts (logSecurityEvent mw ev) = connectionContexts mw"
  "config (logSecurityEvent mw ev) = config mw"
  "authHandler (logSecurityEvent mw ev) = authHandler mw"
  by (simp_all add: logSecurityEvent_def)

lemma validateOrigin_frame:
  "rateLimiter (snd (validateOrigin mw request env)) = rateLimiter mw"
  "connectionContexts (snd (validateOrigin mw request env)) = connectionContexts mw"
  "config (snd (validateOrigin mw request env)) = config mw"
  "authHandler (snd (validateOrigin mw request env)) = authHandler mw"
  by (simp_all add: validateOrigin_def Let_def logSecurityEvent_frame split: option.splits)

lemma validateOrigin_invalid:
  "\<not> valid (fst (validateOrigin mw request env)) \<Longrightarrow>
     validationError (fst (validateOrigin mw request env)) = Some ''Origin not allowed''
   \<and> validationCode (fst (validateOrigin mw request env)) = Some 403"
  by (auto simp: validateOrigin_def Let_def UNAUTHORIZED_ORIGIN_ERROR_def split: option.splits if_splits)

lemma verifyToken_user:
  "success (fst (verifyToken ext h tok uuid w)) = (user (fst (verifyToken ext h tok uuid w)) \<noteq> None)"
  by (simp add: verifyToken_def authFailure_def split: prod.splits sum.splits option.splits JoseError.splits)

lemma authenticate_user:
  "success (fst (authenticate ext h request uuid w)) =
     (user (fst (authenticate ext h request uuid w)) \<noteq> None)"
  by (simp add: authenticate_def authFailure_def verifyToken_user split: option.splits)

lemma middleware_authenticate_result:
  "fst (middleware_authenticate ext mw request env w) =
     fst (authenticate ext (authHandler mw) request (randomUUID env) w)"
  "snd (snd (middleware_authenticate ext mw request env w)) =
     snd (authenticate ext (authHandler mw) request (randomUUID env) w)"
  by (simp_all add: middleware_authenticate_def Let_def split: prod.splits)

lemma middleware_authenticate_frame:
  "rateLimiter (fst (snd (middleware_authenticate ext mw request env w))) = rateLimiter mw"
  "config (fst (snd (middleware_authenticate ext mw request env w))) = config mw"
  "connectionContexts (fst (snd (middleware_authenticate ext mw request env w))) =
     (if success (fst (authenticate ext (authHandler mw) request (randomUUID env) w))
      then (connectionContexts mw)
             (generateConnectionId env 1 \<mapsto>
                \<lparr>ctxUser = user (fst (authenticate ext (authHandler mw) request (randomUUID env) w)),
                 ctxIp = extractIp request,
                 ctxOrigin = (case extractOrigin request of
                                None \<Rightarrow> ''unknown''
                              | Some og \<Rightarrow> if og = [] then ''unknown'' else og),
                 userAgent = headerUserAgent request,
                 connectionTime = dateNow env,
                 lastActivity = dateNow env,
                 messageCount = 0,
                 connectionId = generateConnectionId env 1\<rparr>)
      else connectionContexts mw)"
  "authHandler (fst (snd (middleware_authenticate ext mw request env w))) = authHandler mw"
  by (simp_all add: middleware_authenticate_def Let_def logSecurityEvent_frame split: prod.splits)

lemma middleware_checkConnectionRateLimit_frame:
  "fst (middleware_checkConnectionRateLimit mw uid ip env) =
     fst (checkConnectionRateLimit (rateLimiter mw) uid ip (dateNow env))"
  "rateLimiter (snd (middleware_checkConnectionRateLimit mw uid ip env)) =
     snd (checkConnectionRateLimit (rateLimiter mw) uid ip (dateNow env))"
  "connectionContexts (snd (middleware_checkConnectionRateLimit mw uid ip env)) = connectionContexts mw"
  "config (snd (middleware_checkConnectionRateLimit mw uid ip env)) = config mw"
  "authHandler (snd (middleware_checkConnectionRateLimit mw uid ip env)) = authHandler mw"
  by (simp_all add: middleware_checkConnectionRateLimit_def Let_def logSecurityEvent_frame
      split: prod.splits)


subsection \<open>C10: message checks and the registry\<close>

text \<open>
  C10. The middleware's message check returns the limiter's verdict and leaves the
  limiter as the limiter's own check leaves it, whether or not the connection id is
  registered. For an id that is not in the registry the registry is unchanged (and the
  verdict may well be \<open>allowed = true\<close>). For a registered id the context gets
  \<open>messageCount + 1\<close> and \<open>lastActivity = now\<close> exactly when the check allowed the
  message; a denied check leaves the registry, and so the context, as it was.
\<close>

theorem message_check_updates_context:
  assumes "middleware_checkMessageRateLimit mw cid messageType env = (r, mw')"
  shows "r = fst (checkMessageRateLimit (rateLimiter mw) cid messageType (dateNow env))
    \<and> rateLimiter mw' = snd (checkMessageRateLimit (rateLimiter mw) cid messageType (dateNow env))
    \<and> (connectionContexts mw cid = None \<longrightarrow> connectionContexts mw' = connectionContexts mw)
    \<and> (\<forall>c. connectionContexts mw cid = Some c \<longrightarrow>
           connectionContexts mw' =
             (if allowed r
              then (connectionContexts mw)
                     (cid \<mapsto> c\<lparr>messageCount := messageCount c + 1, lastActivity := dateNow env\<rparr>)
              else connectionContexts mw))"
  using assms
  by (auto simp: middleware_checkMessageRateLimit_def Let_def logSecurityEvent_frame
      split: prod.splits option.splits if_splits)


lemma testMiddleware_limiter:
  "redis (rateLimiter testMiddleware) = None"
  "memoryStorage (rateLimiter testMiddleware) = Map.empty"
  "messageLimits (rateLimiter testMiddleware) ''CHAT_MESSAGE'' = Some \<lparr>windowMs = 60000, maxRequests = 50\<rparr>"
  "connectionConfig (rateLimiter testMiddleware) = DEFAULT_CONNECTION_RATE_LIMIT"
  "connectionContexts testMiddleware = Map.empty"
  by (simp_all add: testMiddleware_def DEFAULT_MESSAGE_RATE_LIMITS_def)

theorem message_check_updates_context_witness:
  "allowed (fst (middleware_checkMessageRateLimit testMiddleware ''ws_9_zz'' ''CHAT_MESSAGE'' (testEnv 1000)))
   \<and> connectionContexts
         (snd (middleware_checkMessageRateLimit testMiddleware ''ws_9_zz'' ''CHAT_MESSAGE'' (testEnv 1000)))
       = Map.empty
   \<and> map_option messageCount
        (connectionContexts
           (snd (middleware_checkMessageRateLimit
                   (testMiddleware\<lparr>connectionContexts :=
                      [''ws_1_ab'' \<mapsto> \<lparr>ctxUser = None, ctxIp = ''192.168.1.1'', ctxOrigin = ''unknown'',
                                       userAgent = ''unknown'', connectionTime = 1, lastActivity = 1,
                                       messageCount = 0, connectionId = ''ws_1_ab''\<rparr>]\<rparr>)
                   ''ws_1_ab'' ''CHAT_MESSAGE'' (testEnv 1000)))
           ''ws_1_ab'') = Some 1"
proof -
  let ?c = "\<lparr>ctxUser = None, ctxIp = ''192.168.1.1'', ctxOrigin = ''unknown'',
             userAgent = ''unknown'', connectionTime = 1, lastActivity = 1,
             messageCount = 0, connectionId = ''ws_1_ab''\<rparr>"
  let ?mw = "testMiddleware\<lparr>connectionContexts := [''ws_1_ab'' \<mapsto> ?c]\<rparr>"
  let ?x = "middleware_checkMessageRateLimit testMiddleware ''ws_9_zz'' ''CHAT_MESSAGE'' (testEnv 1000)"
  let ?y = "middleware_checkMessageRateLimit ?mw ''ws_1_ab'' ''CHAT_MESSAGE'' (testEnv 1000)"
  have v: "allowed (fst (checkMessageRateLimit (rateLimiter testMiddleware) cid ''CHAT_MESSAGE''
                           (dateNow (testEnv 1000))))" for cid
    by (simp add: checkMessageRateLimit_def limitConfigFor_def checkRateLimit_def
        checkMemoryRateLimit_def testMiddleware_limiter Let_def)
  note tx = message_check_updates_context[OF surjective_pairing, of testMiddleware "''ws_9_zz''"
      "''CHAT_MESSAGE''" "testEnv 1000"]
  note ty = message_check_updates_context[OF surjective_pairing, of ?mw "''ws_1_ab''"
      "''CHAT_MESSAGE''" "testEnv 1000"]
  have a: "allowed (fst ?x)" using tx v by metis
  have b: "connectionContexts (snd ?x) = Map.empty"
    using tx testMiddleware_limiter(5) by metis
  have c: "allowed (fst ?y)" using ty v by simp
  have d: "connectionContexts ?mw ''ws_1_ab'' = Some ?c" by simp
  have "connectionContexts (snd ?y) =
          (connectionContexts ?mw)
             (''ws_1_ab'' \<mapsto> ?c\<lparr>messageCount := messageCount ?c + 1, lastActivity := dateNow (testEnv 1000)\<rparr>)"
    using ty c d by metis
  then have e: "map_option messageCount (connectionContexts (snd ?y) ''ws_1_ab'') = Some 1"
    by simp
  from a b e show ?thesis by blast
qed

subsection \<open>The effect of the pipeline\<close>

lemma perform_origin_denied:
  assumes "performSecurityCheck ext mw request env w = (res, mw', w')"
    and "validateOrigin mw request env = (orig, mw1)"
    and "\<not> valid orig"
  shows "res = \<lparr>checkAllowed = False, checkResult = None,
                checkError = Some ''Origin not allowed'', checkCode = Some 403\<rparr>"
    and "checkError res = validationError orig" and "checkCode res = validationCode orig"
    and "w' = w" and "mw' = mw1"
    and "rateLimiter mw' = rateLimiter mw" and "connectionContexts mw' = connectionContexts mw"
    and "config mw' = config mw" and "authHandler mw' = authHandler mw"
proof -
  have inv: "validationError orig = Some ''Origin not allowed''" "validationCode orig = Some 403"
    using validateOrigin_invalid[of mw request env] assms(2,3) by simp_all
  have "(res, mw', w') =
          (\<lparr>checkAllowed = False, checkResult = None, checkError = validationError orig,
            checkCode = validationCode orig\<rparr>, mw1, w)"
    using assms(1,3) by (simp add: performSecurityCheck_def assms(2))
  then have r: "res = \<lparr>checkAllowed = False, checkResult = None, checkError = validationError orig,
                     checkCode = validationCode orig\<rparr>" "mw' = mw1" "w' = w"
    by simp_all
  show "res = \<lparr>checkAllowed = False, checkResult = None,
                checkError = Some ''Origin not allowed'', checkCode = Some 403\<rparr>"
    using r(1) inv by simp
  show "checkError res = validationError orig" "checkCode res = validationCode orig"
    using r(1) by simp_all
  show "w' = w" "mw' = mw1" using r by simp_all
  show "rateLimiter mw' = rateLimiter mw" "connectionContexts mw' = connectionContexts mw"
    "config mw' = config mw" "authHandler mw' = authHandler mw"
    using validateOrigin_frame[of mw request env] assms(2) r(2) by simp_all
qed

lemma perform_after_origin:
  assumes "validateOrigin mw request env = (orig, mw1)"
    and "authenticate ext (authHandler mw) request (randomUUID env) w = (a, wa)"
  shows "\<exists>mw2. middleware_authenticate ext mw1 request env w = (a, mw2, wa)
           \<and> rateLimiter mw2 = rateLimiter mw
           \<and> config mw2 = config mw \<and> authHandler mw2 = authHandler mw
           \<and> connectionContexts mw2 =
               (if success a then (connectionContexts mw)
            (generateConnectionId env 1 \<mapsto>
               \<lparr>ctxUser = user a, ctxIp = extractIp request,
                  ctxOrigin = (case extractOrigin request of
                                 None \<Rightarrow> ''unknown''
                               | Some og \<Rightarrow> if og = [] then ''unknown'' else og),
                  userAgent = headerUserAgent request, connectionTime = dateNow env,
                  lastActivity = dateNow env, messageCount = 0,
                  connectionId = generateConnectionId env 1\<rparr>)
                else connectionContexts mw)"
proof -
  have ah: "authHandler mw1 = authHandler mw" and rl1: "rateLimiter mw1 = rateLimiter mw"
    and cc1: "connectionContexts mw1 = connectionContexts mw" and cf1: "config mw1 = config mw"
    using validateOrigin_frame[of mw request env] assms(1) by simp_all
  obtain a2 mw2 w2 where m: "middleware_authenticate ext mw1 request env w = (a2, mw2, w2)"
    by (cases "middleware_authenticate ext mw1 request env w") auto
  have a2: "a2 = a" "w2 = wa"
    using middleware_authenticate_result[of ext mw1 request env w] m assms(2) ah by simp_all
  have "rateLimiter mw2 = rateLimiter mw" "config mw2 = config mw" "authHandler mw2 = authHandler mw"
    using middleware_authenticate_frame(1,2,4)[of ext mw1 request env w] m rl1 cf1 ah by simp_all
  moreover have "connectionContexts mw2 =
               (if success a then (connectionContexts mw)
            (generateConnectionId env 1 \<mapsto>
               \<lparr>ctxUser = user a, ctxIp = extractIp request,
                  ctxOrigin = (case extractOrigin request of
                                 None \<Rightarrow> ''unknown''
                               | Some og \<Rightarrow> if og = [] then ''unknown'' else og),
                  userAgent = headerUserAgent request, connectionTime = dateNow env,
                  lastActivity = dateNow env, messageCount = 0,
                  connectionId = generateConnectionId env 1\<rparr>)
                else connectionContexts mw)"
    using middleware_authenticate_frame(3)[of ext mw1 request env w] m assms(2) ah cc1 by simp
  ultimately show ?thesis using m a2 by simp
qed

lemma perform_auth_denied:
  assumes "performSecurityCheck ext mw request env w = (res, mw', w')"
    and "validateOrigin mw request env = (orig, mw1)"
    and "authenticate ext (authHandler mw) request (randomUUID env) w = (a, wa)"
    and "valid orig" and "\<not> success a"
  shows "res = \<lparr>checkAllowed = False, checkResult = None,
                checkError = authError a, checkCode = authCode a\<rparr>"
    and "w' = wa"
    and "rateLimiter mw' = rateLimiter mw" and "connectionContexts mw' = connectionContexts mw"
    and "config mw' = config mw" and "authHandler mw' = authHandler mw"
    and "mw' = fst (snd (middleware_authenticate ext mw1 request env w))"
proof -
  obtain mw2 where m: "middleware_authenticate ext mw1 request env w = (a, mw2, wa)"
    and f: "rateLimiter mw2 = rateLimiter mw" "connectionContexts mw2 = connectionContexts mw"
      "config mw2 = config mw" "authHandler mw2 = authHandler mw"
    using perform_after_origin[OF assms(2,3)] assms(5) by auto
  have "(res, mw', w') =
          (\<lparr>checkAllowed = False, checkResult = None, checkError = authError a,
            checkCode = authCode a\<rparr>, mw2, wa)"
    using assms(1,4,5) by (simp add: performSecurityCheck_def assms(2) m)
  then have r: "res = \<lparr>checkAllowed = False, checkResult = None, checkError = authError a,
                     checkCode = authCode a\<rparr>" "mw' = mw2" "w' = wa"
    by simp_all
  show "res = \<lparr>checkAllowed = False, checkResult = None,
                checkError = authError a, checkCode = authCode a\<rparr>" "w' = wa"
    using r by simp_all
  show "rateLimiter mw' = rateLimiter mw" "connectionContexts mw' = connectionContexts mw"
    "config mw' = config mw" "authHandler mw' = authHandler mw"
    using r(2) f by simp_all
  show "mw' = fst (snd (middleware_authenticate ext mw1 request env w))"
    using r(2) m by simp
qed

lemma perform_authenticated:
  assumes "performSecurityCheck ext mw request env w = (res, mw', w')"
    and "validateOrigin mw request env = (orig, mw1)"
    and "authenticate ext (authHandler mw) request (randomUUID env) w = (a, wa)"
    and "valid orig" and "success a"
  shows "\<exists>u. user a = Some u
           \<and> rateLimiter mw' =
               snd (checkConnectionRateLimit (rateLimiter mw) (userId u) (extractIp request) (dateNow env))
           \<and> res =
               (if allowed (fst (checkConnectionRateLimit (rateLimiter mw) (userId u)
                                   (extractIp request) (dateNow env)))
                then \<lparr>checkAllowed = True, checkResult = Some a, checkError = None, checkCode = None\<rparr>
                else \<lparr>checkAllowed = False, checkResult = None,
                       checkError = Some ''Rate limit exceeded. Too many connections.'',
                       checkCode = Some 429\<rparr>)"
    and "w' = wa"
    and "connectionContexts mw' = (connectionContexts mw)
            (generateConnectionId env 1 \<mapsto>
               \<lparr>ctxUser = user a, ctxIp = extractIp request,
                  ctxOrigin = (case extractOrigin request of
                                 None \<Rightarrow> ''unknown''
                               | Some og \<Rightarrow> if og = [] then ''unknown'' else og),
                  userAgent = headerUserAgent request, connectionTime = dateNow env,
                  lastActivity = dateNow env, messageCount = 0,
                  connectionId = generateConnectionId env 1\<rparr>)"
    and "config mw' = config mw" and "authHandler mw' = authHandler mw"
proof -
  obtain mw2 where m: "middleware_authenticate ext mw1 request env w = (a, mw2, wa)"
    and rl2: "rateLimiter mw2 = rateLimiter mw"
    and cf2: "config mw2 = config mw" "authHandler mw2 = authHandler mw"
    and cc2: "connectionContexts mw2 = (connectionContexts mw)
            (generateConnectionId env 1 \<mapsto>
               \<lparr>ctxUser = user a, ctxIp = extractIp request,
                  ctxOrigin = (case extractOrigin request of
                                 None \<Rightarrow> ''unknown''
                               | Some og \<Rightarrow> if og = [] then ''unknown'' else og),
                  userAgent = headerUserAgent request, connectionTime = dateNow env,
                  lastActivity = dateNow env, messageCount = 0,
                  connectionId = generateConnectionId env 1\<rparr>)"
    using perform_after_origin[OF assms(2,3)] assms(5) by auto
  obtain u where u: "user a = Some u"
    using assms(5) authenticate_user[of ext "authHandler mw" request "randomUUID env" w] assms(3)
    by auto
  let ?l = "checkConnectionRateLimit (rateLimiter mw) (userId u) (extractIp request) (dateNow env)"
  obtain rr m3 where c3: "middleware_checkConnectionRateLimit mw2 (userId u) (extractIp request) env = (rr, m3)"
    by (cases "middleware_checkConnectionRateLimit mw2 (userId u) (extractIp request) env")
  have c: "rr = fst ?l" "rateLimiter m3 = snd ?l" "connectionContexts m3 = connectionContexts mw2"
    "config m3 = config mw2" "authHandler m3 = authHandler mw2"
    using middleware_checkConnectionRateLimit_frame[of mw2 "userId u" "extractIp request" env]
      rl2 c3 by simp_all
  have r: "w' = wa
      \<and> rateLimiter mw' = snd ?l \<and> connectionContexts mw' = connectionContexts mw2
      \<and> config mw' = config mw2 \<and> authHandler mw' = authHandler mw2
      \<and> res = (if allowed (fst ?l)
                then \<lparr>checkAllowed = True, checkResult = Some a, checkError = None, checkCode = None\<rparr>
                else \<lparr>checkAllowed = False, checkResult = None,
                       checkError = Some ''Rate limit exceeded. Too many connections.'',
                       checkCode = Some 429\<rparr>)"
  proof (cases "allowed rr")
    case True
    have "\<exists>ev. (res, mw', w') =
            (\<lparr>checkAllowed = True, checkResult = Some a, checkError = None, checkCode = None\<rparr>,
             logSecurityEvent m3 ev, wa)"
      using assms(1,4,5) True
      by (auto simp add: performSecurityCheck_def assms(2) m u c3)
    then obtain ev where
      "res = \<lparr>checkAllowed = True, checkResult = Some a, checkError = None, checkCode = None\<rparr>"
      "mw' = logSecurityEvent m3 ev" "w' = wa"
      by auto
    then show ?thesis using True c by (simp add: logSecurityEvent_frame)
  next
    case False
    have "(res, mw', w') =
            (\<lparr>checkAllowed = False, checkResult = None,
              checkError = Some ''Rate limit exceeded. Too many connections.'',
              checkCode = Some 429\<rparr>, m3, wa)"
      using assms(1,4,5) False
      by (simp add: performSecurityCheck_def assms(2) m u c3)
    then have "res = \<lparr>checkAllowed = False, checkResult = None,
              checkError = Some ''Rate limit exceeded. Too many connections.'',
              checkCode = Some 429\<rparr>" "mw' = m3" "w' = wa"
      by simp_all
    then show ?thesis using False c by simp
  qed
  show "w' = wa" using r by simp
  show "config mw' = config mw" "authHandler mw' = authHandler mw" using r cf2 by simp_all
  show "connectionContexts mw' = (connectionContexts mw)
            (generateConnectionId env 1 \<mapsto>
               \<lparr>ctxUser = user a, ctxIp = extractIp request,
                  ctxOrigin = (case extractOrigin request of
                                 None \<Rightarrow> ''unknown''
                               | Some og \<Rightarrow> if og = [] then ''unknown'' else og),
                  userAgent = headerUserAgent request, connectionTime = dateNow env,
                  lastActivity = dateNow env, messageCount = 0,
                  connectionId = generateConnectionId env 1\<rparr>)"
    using r cc2 by simp
  show "\<exists>u. user a = Some u
           \<and> rateLimiter mw' =
               snd (checkConnectionRateLimit (rateLimiter mw) (userId u) (extractIp request) (dateNow env))
           \<and> res =
               (if allowed (fst (checkConnectionRateLimit (rateLimiter mw) (userId u)
                                   (extractIp request) (dateNow env)))
                then \<lparr>checkAllowed = True, checkResult = Some a, checkError = None, checkCode = None\<rparr>
                else \<lparr>checkAllowed = False, checkResult = None,
                       checkError = Some ''Rate limit exceeded. Too many connections.'',
                       checkCode = Some 429\<rparr>)"
    using u r by simp
qed

subsection \<open>C1: the pipeline stops at the first denial\<close>

text \<open>
  C1. Let \<open>o\<close> be the verdict of \<open>validateOrigin\<close> on the request, \<open>a\<close> the answer of the
  token authenticator on it, and \<open>l\<close> the verdict of the limiter's connection check for
  the authenticated user and the request's address. \<open>performSecurityCheck\<close> answers,
  for every URL parser and verifier:
  \<^item> when \<open>o\<close> is invalid, the denial with \<open>o\<close>'s error (\<open>Origin not allowed\<close>) and code
    (403); the middleware is as \<open>validateOrigin\<close> left it and the verifier's world, the
    limiter and the registry are as before, so neither the authenticator nor the
    limiter has run;
  \<^item> when \<open>o\<close> is valid and \<open>a\<close> failed, the denial with \<open>a\<close>'s error and code; the
    middleware is as the authentication stage left it and the limiter is as before, so
    the rate-limit stage has not run;
  \<^item> when \<open>o\<close> is valid and \<open>a\<close> succeeded, \<open>a\<close> carries a user; the answer is the
    denial \<open>Rate limit exceeded. Too many connections.\<close> with code 429 when \<open>l\<close>
    denies, and the acceptance carrying \<open>a\<close> when \<open>l\<close> allows.
\<close>

theorem pipeline_first_denial:
  assumes "performSecurityCheck ext mw request env w = (res, mw', w')"
    and "validateOrigin mw request env = (orig, mw1)"
    and "authenticate ext (authHandler mw) request (randomUUID env) w = (a, wa)"
  shows
    "(\<not> valid orig \<longrightarrow>
        res = \<lparr>checkAllowed = False, checkResult = None,
                checkError = Some ''Origin not allowed'', checkCode = Some 403\<rparr>
      \<and> checkError res = validationError orig \<and> checkCode res = validationCode orig
      \<and> w' = w \<and> mw' = mw1
      \<and> rateLimiter mw' = rateLimiter mw \<and> connectionContexts mw' = connectionContexts mw)
   \<and> (valid orig \<and> \<not> success a \<longrightarrow>
        res = \<lparr>checkAllowed = False, checkResult = None,
                checkError = authError a, checkCode = authCode a\<rparr>
      \<and> w' = wa \<and> mw' = fst (snd (middleware_authenticate ext mw1 request env w))
      \<and> rateLimiter mw' = rateLimiter mw)
   \<and> (valid orig \<and> success a \<longrightarrow>
        (\<exists>u. user a = Some u
           \<and> rateLimiter mw' =
               snd (checkConnectionRateLimit (rateLimiter mw) (userId u) (extractIp request) (dateNow env))
           \<and> res =
               (if allowed (fst (checkConnectionRateLimit (rateLimiter mw) (userId u)
                                   (extractIp request) (dateNow env)))
                then \<lparr>checkAllowed = True, checkResult = Some a, checkError = None, checkCode = None\<rparr>
                else \<lparr>checkAllowed = False, checkResult = None,
                       checkError = Some ''Rate limit exceeded. Too many connections.'',
                       checkCode = Some 429\<rparr>))
      \<and> w' = wa)"
proof -
  have A: "\<not> valid orig \<longrightarrow>
        res = \<lparr>checkAllowed = False, checkResult = None,
                checkError = Some ''Origin not allowed'', checkCode = Some 403\<rparr>
      \<and> checkError res = validationError orig \<and> checkCode res = validationCode orig
      \<and> w' = w \<and> mw' = mw1
      \<and> rateLimiter mw' = rateLimiter mw \<and> connectionContexts mw' = connectionContexts mw"
  proof
    assume "\<not> valid orig"
    from perform_origin_denied[OF assms(1,2) this]
    show "res = \<lparr>checkAllowed = False, checkResult = None,
                checkError = Some ''Origin not allowed'', checkCode = Some 403\<rparr>
      \<and> checkError res = validationError orig \<and> checkCode res = validationCode orig
      \<and> w' = w \<and> mw' = mw1
      \<and> rateLimiter mw' = rateLimiter mw \<and> connectionContexts mw' = connectionContexts mw"
      by simp
  qed
  have B: "valid orig \<and> \<not> success a \<longrightarrow>
        res = \<lparr>checkAllowed = False, checkResult = None,
                checkError = authError a, checkCode = authCode a\<rparr>
      \<and> w' = wa \<and> mw' = fst (snd (middleware_authenticate ext mw1 request env w))
      \<and> rateLimiter mw' = rateLimiter mw"
  proof
    assume "valid orig \<and> \<not> success a"
    then have "valid orig" "\<not> success a" by simp_all
    from perform_auth_denied[OF assms this]
    show "res = \<lparr>checkAllowed = False, checkResult = None,
                checkError = authError a, checkCode = authCode a\<rparr>
      \<and> w' = wa \<and> mw' = fst (snd (middleware_authenticate ext mw1 request env w))
      \<and> rateLimiter mw' = rateLimiter mw"
      by simp
  qed
  have C: "valid orig \<and> success a \<longrightarrow>
        (\<exists>u. user a = Some u
           \<and> rateLimiter mw' =
               snd (checkConnectionRateLimit (rateLimiter mw) (userId u) (extractIp request) (dateNow env))
           \<and> res =
               (if allowed (fst (checkConnectionRateLimit (rateLimiter mw) (userId u)
                                   (extractIp request) (dateNow env)))
                then \<lparr>checkAllowed = True, checkResult = Some a, checkError = None, checkCode = None\<rparr>
                else \<lparr>checkAllowed = False, checkResult = None,
                       checkError = Some ''Rate limit exceeded. Too many connections.'',
                       checkCode = Some 429\<rparr>))
      \<and> w' = wa"
  proof
    assume "valid orig \<and> success a"
    then have "valid orig" "success a" by simp_all
    from perform_authenticated(1,2)[OF assms this]
    show "(\<exists>u. user a = Some u
           \<and> rateLimiter mw' =
               snd (checkConnectionRateLimit (rateLimiter mw) (userId u) (extractIp request) (dateNow env))
           \<and> res =
               (if allowed (fst (checkConnectionRateLimit (rateLimiter mw) (userId u)
                                   (extractIp request) (dateNow env)))
                then \<lparr>checkAllowed = True, checkResult = Some a, checkError = None, checkCode = None\<rparr>
                else \<lparr>checkAllowed = False, checkResult = None,
                       checkError = Some ''Rate limit exceeded. Too many connections.'',
                       checkCode = Some 429\<rparr>))
      \<and> w' = wa"
      by (rule conjI)
  qed
  show ?thesis by (rule conjI, rule A, rule conjI, rule B, rule C)
qed

subsection \<open>C3: when a connection context enters the registry\<close>

lemma handleConnectionClose_registry:
  "connectionContexts (handleConnectionClose mw cid env) = (connectionContexts mw)(cid := None)"
  by (simp add: handleConnectionClose_def Let_def logSecurityEvent_frame)

text \<open>
  C3, as amended. The context of a connection attempt is inserted by the authentication
  stage, once the token is verified and before the connection-level rate-limit check.
  After \<open>performSecurityCheck\<close> the registry is the registry before plus the
  attempt's context (under the connection id generated in \<open>authenticate\<close>, with the
  authenticated user and a message count of 0) when the attempt passed origin
  validation and authentication, whatever the verdict of the rate-limit stage, and it
  is the registry before when the attempt was denied at the origin or the
  authentication stage. \<open>handleConnectionClose\<close> removes the entry of its connection
  id and no other.
\<close>

theorem registry_insert_at_authentication:
  assumes "performSecurityCheck ext mw request env w = (res, mw', w')"
    and "validateOrigin mw request env = (orig, mw1)"
    and "authenticate ext (authHandler mw) request (randomUUID env) w = (a, wa)"
  shows "connectionContexts mw' =
        (if valid orig \<and> success a
         then (connectionContexts mw)
                (generateConnectionId env 1 \<mapsto>
                 \<lparr>ctxUser = user a, ctxIp = extractIp request,
                  ctxOrigin = (case extractOrigin request of
                                 None \<Rightarrow> ''unknown''
                               | Some og \<Rightarrow> if og = [] then ''unknown'' else og),
                  userAgent = headerUserAgent request, connectionTime = dateNow env,
                  lastActivity = dateNow env, messageCount = 0,
                  connectionId = generateConnectionId env 1\<rparr>)
         else connectionContexts mw)
    \<and> (\<forall>cid env2.
          connectionContexts (handleConnectionClose mw' cid env2) = (connectionContexts mw')(cid := None))"
proof (cases "valid orig \<and> success a")
  case True
  then have "valid orig" "success a" by simp_all
  from perform_authenticated(3)[OF assms this] True show ?thesis
    by (simp add: handleConnectionClose_registry)
next
  case False
  have "connectionContexts mw' = connectionContexts mw"
  proof (cases "valid orig")
    case True
    with False have "\<not> success a" by simp
    from perform_auth_denied(4)[OF assms True this] show ?thesis .
  next
    case False
    from perform_origin_denied(7)[OF assms(1,2) this] show ?thesis .
  qed
  with False show ?thesis by (auto simp: handleConnectionClose_registry)
qed


subsection \<open>The fixtures under the pipeline\<close>

lemma triple_collapse: "x = (fst x, fst (snd x), snd (snd x))"
  by simp

lemma fixture_origins:
  assumes "allowedOrigins (config mw) = ALLOWED_ORIGINS"
  shows "valid (fst (validateOrigin mw (testRequest ''https://app.antigravity.dev'' u) env))"
    and "\<not> valid (fst (validateOrigin mw (testRequest ''https://evil.com'' u) env))"
proof -
  have a: "originAllowed ALLOWED_ORIGINS (trim (toLowerCase ''https://app.antigravity.dev''))"
    by code_simp
  have b: "\<not> originAllowed ALLOWED_ORIGINS (trim (toLowerCase ''https://evil.com''))"
    by code_simp
  show "valid (fst (validateOrigin mw (testRequest ''https://app.antigravity.dev'' u) env))"
    using a by (simp add: validateOrigin_def extractOrigin_def testRequest_def assms Let_def)
  show "\<not> valid (fst (validateOrigin mw (testRequest ''https://evil.com'' u) env))"
    using b by (simp add: validateOrigin_def extractOrigin_def testRequest_def assms Let_def)
qed

lemma fixture_tokens:
  "extractTokenFromUrl testExternal (testRequest og ''/ws?token=valid'') =
     Some \<lparr>token = ''valid'', tokenUserId = None\<rparr>"
  "extractTokenFromUrl testExternal (testRequest og ''/ws?token=expired'') =
     Some \<lparr>token = ''expired'', tokenUserId = None\<rparr>"
  by (simp_all add: extractTokenFromUrl_def testRequest_def testExternal_def testParseURL_def
      urlStringOf_def startsWith_def)

lemma fixture_authenticate:
  "authenticate testExternal \<lparr>secret = JWT_SECRET, algorithm = ''HS256''\<rparr>
     (testRequest og ''/ws?token=valid'') uuid w =
   (\<lparr>success = True,
     user = Some \<lparr>userId = ''user123'', email = ''user@example.com'', roles = [], permissions = [],
                  sessionId = uuid\<rparr>,
     authError = None, authCode = None\<rparr>, Suc w)"
  "authenticate testExternal \<lparr>secret = JWT_SECRET, algorithm = ''HS256''\<rparr>
     (testRequest og ''/ws?token=expired'') uuid w =
   (\<lparr>success = False, user = None, authError = Some ''Token has expired'', authCode = Some 401\<rparr>,
    Suc w)"
  unfolding authenticate_def fixture_tokens
  by (simp_all add: verifyToken_def testExternal_def testJwtVerify_def extractUserFromPayload_def
      authFailure_def JWT_SECRET_def)

lemma fixture_ip: "extractIp (testRequest og u) = ''192.168.1.1''"
  by (simp add: extractIp_def testRequest_def)

lemma fixture_middleware:
  "allowedOrigins (config testMiddleware) = ALLOWED_ORIGINS"
  "authHandler testMiddleware = \<lparr>secret = JWT_SECRET, algorithm = ''HS256''\<rparr>"
  "allowedOrigins (config testMiddlewareOnePerUser) = ALLOWED_ORIGINS"
  "authHandler testMiddlewareOnePerUser = \<lparr>secret = JWT_SECRET, algorithm = ''HS256''\<rparr>"
  "connectionContexts testMiddlewareOnePerUser = Map.empty"
  by (simp_all add: testMiddleware_def testMiddlewareOnePerUser_def resolveConfig_def testConfig_def)

lemma fixture_ids:
  "generateConnectionId (testEnv 1000) 1 = ''ws_1000_k3x9q2m1''"
  "generateConnectionId (testEnv 2000) 1 = ''ws_2000_k3x9q2m1''"
  "generateConnectionId (testEnv 1000) (Suc 0) = ''ws_1000_k3x9q2m1''"
  "generateConnectionId (testEnv 2000) (Suc 0) = ''ws_2000_k3x9q2m1''"
  by code_simp+

lemma fixture_first_connection:
  "allowed (fst (checkConnectionRateLimit (rateLimiter testMiddleware) ''user123'' ''192.168.1.1'' 1000))"
  "allowed (fst (checkConnectionRateLimit (rateLimiter testMiddlewareOnePerUser)
                   ''user123'' ''192.168.1.1'' 1000))"
  by (simp_all add: testMiddleware_def testMiddlewareOnePerUser_def checkConnectionRateLimit_def
      checkRateLimit_def checkMemoryRateLimit_def Let_def)

lemma fixture_second_connection:
  "\<not> allowed (fst (checkConnectionRateLimit
                     (snd (checkConnectionRateLimit (rateLimiter testMiddlewareOnePerUser)
                             ''user123'' ''192.168.1.1'' 1000))
                     ''user123'' ''192.168.1.1'' 2000))"
  by (simp add: testMiddleware_def testMiddlewareOnePerUser_def checkConnectionRateLimit_def
      checkRateLimit_def checkMemoryRateLimit_def incrementCounter_def incrementMemoryCounter_def
      getConnectionKeyUser_def getConnectionKeyIp_def Let_def)


subsection \<open>Examples for C1 and C3\<close>

theorem pipeline_first_denial_witness:
  "fst (performSecurityCheck testExternal testMiddleware
          (testRequest ''https://evil.com'' ''/ws?token=valid'') (testEnv 1000) 0) =
     \<lparr>checkAllowed = False, checkResult = None, checkError = Some ''Origin not allowed'',
      checkCode = Some 403\<rparr>
   \<and> snd (snd (performSecurityCheck testExternal testMiddleware
                  (testRequest ''https://evil.com'' ''/ws?token=valid'') (testEnv 1000) 0)) = 0
   \<and> fst (performSecurityCheck testExternal testMiddleware
            (testRequest ''https://app.antigravity.dev'' ''/ws?token=expired'') (testEnv 1000) 0) =
     \<lparr>checkAllowed = False, checkResult = None, checkError = Some ''Token has expired'',
      checkCode = Some 401\<rparr>
   \<and> checkAllowed (fst (performSecurityCheck testExternal testMiddleware
            (testRequest ''https://app.antigravity.dev'' ''/ws?token=valid'') (testEnv 1000) 0))"
proof -
  let ?bad = "testRequest ''https://evil.com'' ''/ws?token=valid''"
  let ?exp = "testRequest ''https://app.antigravity.dev'' ''/ws?token=expired''"
  let ?ok = "testRequest ''https://app.antigravity.dev'' ''/ws?token=valid''"
  let ?env = "testEnv 1000"
  have e: "dateNow ?env = 1000" by (simp add: testEnv_def)
  have vb: "\<not> valid (fst (validateOrigin testMiddleware ?bad ?env))"
    and ve: "valid (fst (validateOrigin testMiddleware ?exp ?env))"
    and vo: "valid (fst (validateOrigin testMiddleware ?ok ?env))"
    using fixture_origins[OF fixture_middleware(1)] by simp_all
  have ae: "authenticate testExternal (authHandler testMiddleware) ?exp (randomUUID ?env) 0 =
      (\<lparr>success = False, user = None, authError = Some ''Token has expired'', authCode = Some 401\<rparr>,
       Suc 0)"
    unfolding fixture_middleware(2) by (rule fixture_authenticate(2))
  have ao: "authenticate testExternal (authHandler testMiddleware) ?ok (randomUUID ?env) 0 =
      (\<lparr>success = True,
        user = Some \<lparr>userId = ''user123'', email = ''user@example.com'', roles = [],
                     permissions = [], sessionId = randomUUID ?env\<rparr>,
        authError = None, authCode = None\<rparr>, Suc 0)"
    unfolding fixture_middleware(2) by (rule fixture_authenticate(1))
  note tb = pipeline_first_denial[where ext = testExternal and mw = testMiddleware and request = "?bad"
      and env = "?env" and w = 0, OF triple_collapse surjective_pairing surjective_pairing]
  note te = pipeline_first_denial[where ext = testExternal and mw = testMiddleware and request = "?exp"
      and env = "?env" and w = 0, OF triple_collapse surjective_pairing ae]
  note to = pipeline_first_denial[where ext = testExternal and mw = testMiddleware and request = "?ok"
      and env = "?env" and w = 0, OF triple_collapse surjective_pairing ao]
  have 1: "fst (performSecurityCheck testExternal testMiddleware ?bad ?env 0) =
     \<lparr>checkAllowed = False, checkResult = None, checkError = Some ''Origin not allowed'',
      checkCode = Some 403\<rparr>"
    and 2: "snd (snd (performSecurityCheck testExternal testMiddleware ?bad ?env 0)) = 0"
    using tb vb by blast+
  have 3: "fst (performSecurityCheck testExternal testMiddleware ?exp ?env 0) =
     \<lparr>checkAllowed = False, checkResult = None, checkError = Some ''Token has expired'',
      checkCode = Some 401\<rparr>"
    using te ve by simp
  have 4: "checkAllowed (fst (performSecurityCheck testExternal testMiddleware ?ok ?env 0))"
    using to vo fixture_first_connection(1) by (simp add: fixture_ip e)
  from 1 2 3 4 show ?thesis by blast
qed


theorem registry_insert_at_authentication_witness:
  "map_option messageCount
     (connectionContexts
        (fst (snd (performSecurityCheck testExternal testMiddleware
                     (testRequest ''https://app.antigravity.dev'' ''/ws?token=valid'') (testEnv 1000) 0)))
        ''ws_1000_k3x9q2m1'') = Some 0
   \<and> connectionContexts
        (fst (snd (performSecurityCheck testExternal testMiddleware
                     (testRequest ''https://evil.com'' ''/ws?token=valid'') (testEnv 1000) 0)))
       = Map.empty
   \<and> connectionContexts
        (handleConnectionClose
           (fst (snd (performSecurityCheck testExternal testMiddleware
                        (testRequest ''https://app.antigravity.dev'' ''/ws?token=valid'') (testEnv 1000) 0)))
           ''ws_1000_k3x9q2m1'' (testEnv 5000))
        ''ws_1000_k3x9q2m1'' = None"
proof -
  let ?bad = "testRequest ''https://evil.com'' ''/ws?token=valid''"
  let ?ok = "testRequest ''https://app.antigravity.dev'' ''/ws?token=valid''"
  let ?env = "testEnv 1000"
  let ?A = "fst (snd (performSecurityCheck testExternal testMiddleware ?ok ?env 0))"
  let ?B = "fst (snd (performSecurityCheck testExternal testMiddleware ?bad ?env 0))"
  have vb: "\<not> valid (fst (validateOrigin testMiddleware ?bad ?env))"
    and vo: "valid (fst (validateOrigin testMiddleware ?ok ?env))"
    using fixture_origins[OF fixture_middleware(1)] by simp_all
  have ao: "authenticate testExternal (authHandler testMiddleware) ?ok (randomUUID ?env) 0 =
      (\<lparr>success = True,
        user = Some \<lparr>userId = ''user123'', email = ''user@example.com'', roles = [],
                     permissions = [], sessionId = randomUUID ?env\<rparr>,
        authError = None, authCode = None\<rparr>, Suc 0)"
    unfolding fixture_middleware(2) by (rule fixture_authenticate(1))
  note tb = registry_insert_at_authentication[where ext = testExternal and mw = testMiddleware
      and request = "?bad" and env = "?env" and w = 0,
      OF triple_collapse surjective_pairing surjective_pairing]
  note to = registry_insert_at_authentication[where ext = testExternal and mw = testMiddleware
      and request = "?ok" and env = "?env" and w = 0, OF triple_collapse surjective_pairing ao]
  have 1: "map_option messageCount (connectionContexts ?A ''ws_1000_k3x9q2m1'') = Some 0"
    using to vo by (simp add: fixture_ids)
  have 2: "connectionContexts ?B = Map.empty"
    using tb vb by (simp add: testMiddleware_limiter(5))
  have 3: "connectionContexts (handleConnectionClose ?A ''ws_1000_k3x9q2m1'' (testEnv 5000))
             ''ws_1000_k3x9q2m1'' = None"
    using to by simp
  from 1 2 3 show ?thesis by blast
qed

text \<open>
  C3 as stated fails: the context is inserted by the authentication stage, before the
  rate-limit stage runs. With a quota of one connection per user, the second attempt
  of the same user is denied with code 429, and its context, under an id that was not
  in the registry before, is in the registry after.
\<close>

theorem rate_limited_attempt_registered_counterexample:
  "checkCode
     (fst (performSecurityCheck testExternal
             (fst (snd (performSecurityCheck testExternal testMiddlewareOnePerUser
                          (testRequest ''https://app.antigravity.dev'' ''/ws?token=valid'')
                          (testEnv 1000) 0)))
             (testRequest ''https://app.antigravity.dev'' ''/ws?token=valid'') (testEnv 2000) 1))
     = Some 429
   \<and> connectionContexts
         (fst (snd (performSecurityCheck testExternal testMiddlewareOnePerUser
                      (testRequest ''https://app.antigravity.dev'' ''/ws?token=valid'')
                      (testEnv 1000) 0)))
         ''ws_2000_k3x9q2m1'' = None
   \<and> map_option connectionId
        (connectionContexts
           (fst (snd (performSecurityCheck testExternal
                        (fst (snd (performSecurityCheck testExternal testMiddlewareOnePerUser
                                     (testRequest ''https://app.antigravity.dev'' ''/ws?token=valid'')
                                     (testEnv 1000) 0)))
                        (testRequest ''https://app.antigravity.dev'' ''/ws?token=valid'')
                        (testEnv 2000) 1)))
           ''ws_2000_k3x9q2m1'') = Some ''ws_2000_k3x9q2m1''"
proof -
  let ?ok = "testRequest ''https://app.antigravity.dev'' ''/ws?token=valid''"
  let ?e1 = "testEnv 1000"
  let ?e2 = "testEnv 2000"
  let ?M = "testMiddlewareOnePerUser"
  let ?A = "fst (snd (performSecurityCheck testExternal ?M ?ok ?e1 0))"
  let ?u = "\<lambda>uuid. \<lparr>userId = ''user123'', email = ''user@example.com'', roles = [],
                      permissions = [], sessionId = uuid\<rparr>"
  have e: "dateNow ?e1 = 1000" "dateNow ?e2 = 2000" by (simp_all add: testEnv_def)
  have v1: "valid (fst (validateOrigin ?M ?ok ?e1))"
    using fixture_origins(1)[OF fixture_middleware(3)] .
  have a1: "authenticate testExternal (authHandler ?M) ?ok (randomUUID ?e1) 0 =
      (\<lparr>success = True, user = Some (?u (randomUUID ?e1)), authError = None, authCode = None\<rparr>,
       Suc 0)"
    unfolding fixture_middleware(4) by (rule fixture_authenticate(1))
  note pa = perform_authenticated[where ext = testExternal and mw = ?M and request = "?ok"
      and env = "?e1" and w = 0, OF triple_collapse surjective_pairing a1 v1]
  have rlA: "rateLimiter ?A =
      snd (checkConnectionRateLimit (rateLimiter ?M) ''user123'' ''192.168.1.1'' 1000)"
    using pa(1) by (simp add: fixture_ip e)
  have ccA: "connectionContexts ?A ''ws_2000_k3x9q2m1'' = None"
    using pa(3) by (simp add: fixture_ids fixture_middleware(5))
  have cfA: "allowedOrigins (config ?A) = ALLOWED_ORIGINS"
    and ahA: "authHandler ?A = \<lparr>secret = JWT_SECRET, algorithm = ''HS256''\<rparr>"
    using pa(4,5) by (simp_all add: fixture_middleware)
  have v2: "valid (fst (validateOrigin ?A ?ok ?e2))"
    using fixture_origins(1)[OF cfA] .
  have a2: "authenticate testExternal (authHandler ?A) ?ok (randomUUID ?e2) 1 =
      (\<lparr>success = True, user = Some (?u (randomUUID ?e2)), authError = None, authCode = None\<rparr>,
       Suc 1)"
    unfolding ahA by (rule fixture_authenticate(1))
  note pb = perform_authenticated[where ext = testExternal and mw = "?A" and request = "?ok"
      and env = "?e2" and w = 1, OF triple_collapse surjective_pairing a2 v2]
  have 1: "checkCode (fst (performSecurityCheck testExternal ?A ?ok ?e2 1)) = Some 429"
    using pb(1) fixture_second_connection by (simp add: fixture_ip e rlA)
  have 3: "map_option connectionId
             (connectionContexts (fst (snd (performSecurityCheck testExternal ?A ?ok ?e2 1)))
                ''ws_2000_k3x9q2m1'') = Some ''ws_2000_k3x9q2m1''"
    using pb(3) by (simp add: fixture_ids)
  from 1 ccA 3 show ?thesis by blast
qed

end
